theory Spec2Isabelle
  imports Main "HOL-Library.Log_Nat"
begin

section \<open>Python strings and the built-ins the invoice extractor relies on\<close>

text \<open>
  A Python \<open>str\<close> is a sequence of Unicode code points, so it is modelled as a list of
  natural numbers. \<open>lit\<close> turns an ASCII literal into that representation; text with
  Vietnamese letters is written with its code points.

  Character classes: white space is the set that \<open>str.strip\<close>, \<open>str.split\<close> and
  \<open>int\<close> use. Decimal digits are the ASCII digits; code points of the Unicode class Nd
  outside ASCII (which \<open>\d\<close>, \<open>int\<close> and \<open>str.isdigit\<close> also accept) come from the
  interpreter's Unicode tables and are treated as non-digits here.
\<close>

type_synonym pystr = "nat list"

definition lit :: "string \<Rightarrow> pystr" where
  "lit s = map of_char s"

definition is_space :: "nat \<Rightarrow> bool" where
  "is_space c \<longleftrightarrow>
     (9 \<le> c \<and> c \<le> 13) \<or> (28 \<le> c \<and> c \<le> 32) \<or> c = 133 \<or> c = 160 \<or> c = 5760 \<or>
     (8192 \<le> c \<and> c \<le> 8202) \<or> c = 8232 \<or> c = 8233 \<or> c = 8239 \<or> c = 8287 \<or> c = 12288"

definition is_digit :: "nat \<Rightarrow> bool" where
  "is_digit c \<longleftrightarrow> 48 \<le> c \<and> c \<le> 57"

text \<open>The two separators of an amount: \<open>.\<close> is 46 and \<open>,\<close> is 44.\<close>

definition is_sep :: "nat \<Rightarrow> bool" where
  "is_sep c \<longleftrightarrow> c = 44 \<or> c = 46"

definition py_strip :: "pystr \<Rightarrow> pystr" where
  "py_strip s = rev (dropWhile is_space (rev (dropWhile is_space s)))"

text \<open>\<open>s.split()\<close>: the maximal runs of characters that are not white space.\<close>

fun split_ws :: "pystr \<Rightarrow> pystr \<Rightarrow> pystr list" where
  "split_ws cur [] = (if cur = [] then [] else [rev cur])"
| "split_ws cur (c # cs) =
     (if is_space c then (if cur = [] then split_ws [] cs else rev cur # split_ws [] cs)
      else split_ws (c # cur) cs)"

definition py_split :: "pystr \<Rightarrow> pystr list" where
  "py_split s = split_ws [] s"

text \<open>\<open>s.split('\n')\<close>: the pieces between line feeds, empty pieces included.\<close>

fun split_on :: "nat \<Rightarrow> pystr \<Rightarrow> pystr \<Rightarrow> pystr list" where
  "split_on d cur [] = [rev cur]"
| "split_on d cur (c # cs) =
     (if c = d then rev cur # split_on d [] cs else split_on d (c # cur) cs)"

definition py_lines :: "pystr \<Rightarrow> pystr list" where
  "py_lines s = split_on 10 [] s"

text \<open>\<open>s.replace(c, '')\<close> for a single character \<open>c\<close>.\<close>

definition remove_char :: "nat \<Rightarrow> pystr \<Rightarrow> pystr" where
  "remove_char c s = filter (\<lambda>x. x \<noteq> c) s"

text \<open>\<open>s.rfind(c)\<close>: the index of the last occurrence, \<open>-1\<close> when there is none.\<close>

definition rfind :: "nat \<Rightarrow> pystr \<Rightarrow> int" where
  "rfind c s =
     (if c \<in> set s then int (length s) - 1 - int (length (takeWhile (\<lambda>x. x \<noteq> c) (rev s)))
      else - 1)"

text \<open>\<open>s.isdigit()\<close>: not empty, and digits only.\<close>

definition py_isdigit :: "pystr \<Rightarrow> bool" where
  "py_isdigit s \<longleftrightarrow> s \<noteq> [] \<and> list_all is_digit s"

text \<open>
  \<open>re.search(r'[,.]\d{k}$', s)\<close>: a separator and exactly \<open>k\<close> digits, ending where
  \<open>$\<close> matches, which is the end of the string or the position before a final line feed.
\<close>

definition sep_digits_tail :: "nat \<Rightarrow> pystr \<Rightarrow> bool" where
  "sep_digits_tail k s \<longleftrightarrow>
     (let r = rev s in k < length r \<and> list_all is_digit (take k r) \<and> is_sep (r ! k))"

definition search_sep_digits_end :: "nat \<Rightarrow> pystr \<Rightarrow> bool" where
  "search_sep_digits_end k s \<longleftrightarrow>
     sep_digits_tail k s \<or> (s \<noteq> [] \<and> last s = 10 \<and> sep_digits_tail k (butlast s))"

text \<open>
  \<open>int(s)\<close> on a string: white space around the literal is dropped, one sign is allowed,
  and the digits may be separated by single underscores. \<open>None\<close> stands for the
  \<open>ValueError\<close>. (The interpreter's limit on the number of digits is a run-time setting
  and is left out.)
\<close>

fun int_digits :: "int \<Rightarrow> bool \<Rightarrow> pystr \<Rightarrow> int option" where
  "int_digits acc prev [] = (if prev then Some acc else None)"
| "int_digits acc prev (c # cs) =
     (if is_digit c then int_digits (10 * acc + (int c - 48)) True cs
      else if c = 95 \<and> prev then int_digits acc False cs
      else None)"

definition py_int :: "pystr \<Rightarrow> int option" where
  "py_int s =
     (case py_strip s of
        [] \<Rightarrow> None
      | c # cs \<Rightarrow>
          if c = 45 then map_option uminus (int_digits 0 False cs)
          else if c = 43 then int_digits 0 False cs
          else int_digits 0 False (c # cs))"

text \<open>\<open>str(n)\<close> and the thousands grouping of the format specifier \<open>,\<close>.\<close>

fun nat_digits :: "nat \<Rightarrow> pystr" where
  "nat_digits n = (if n < 10 then [48 + n] else nat_digits (n div 10) @ [48 + n mod 10])"

declare nat_digits.simps [simp del]

definition py_str_int :: "int \<Rightarrow> pystr" where
  "py_str_int n = (if n < 0 then 45 # nat_digits (nat (- n)) else nat_digits (nat n))"

fun group_rev :: "nat \<Rightarrow> pystr \<Rightarrow> pystr" where
  "group_rev sep (a # b # c # d # rest) = a # b # c # sep # group_rev sep (d # rest)"
| "group_rev sep rs = rs"

definition group_thousands :: "nat \<Rightarrow> pystr \<Rightarrow> pystr" where
  "group_thousands sep ds = rev (group_rev sep (rev ds))"

definition format_grouped :: "nat \<Rightarrow> int \<Rightarrow> pystr" where
  "format_grouped sep n =
     (if n < 0 then 45 # group_thousands sep (nat_digits (nat (- n)))
      else group_thousands sep (nat_digits (nat n)))"

section \<open>The module-level money parser and formatter\<close>

text \<open>
  The shared front of every parser of the file: strip, cut the fraction when both
  separators occur (the later one is the decimal separator), otherwise drop a two-digit
  decimal suffix.
\<close>

definition cut_fraction :: "pystr \<Rightarrow> pystr" where
  "cut_fraction s0 =
     (let s = py_strip s0 in
      if 46 \<in> set s \<and> 44 \<in> set s then
        (let last_dot = rfind 46 s; last_comma = rfind 44 s in
         if last_comma > last_dot then take (nat last_comma) s else take (nat last_dot) s)
      else if search_sep_digits_end 2 s \<and> \<not> search_sep_digits_end 3 s
        then take (length s - 3) s
      else s)"

text \<open>\<open>parse_money\<close> (line 190): \<open>None\<close> for an empty or unparseable value.\<close>

definition parse_money :: "pystr \<Rightarrow> int option" where
  "parse_money v =
     (if v = [] then None
      else py_int (remove_char 44 (remove_char 46 (cut_fraction v))))"

text \<open>\<open>format_money\<close> (line 217) on an integer: \<open>f"{value:,}"\<close>.\<close>

definition format_money :: "int \<Rightarrow> pystr" where
  "format_money n = format_grouped 44 n"


section \<open>The parsers and the formatter nested in the other functions\<close>

text \<open>
  \<open>extract_invoice_data\<close> defines its own \<open>parse_money\<close> (line 1082) and
  \<open>format_money\<close> (line 1110), which shadow the module-level functions inside it. This
  \<open>parse_money\<close> returns \<open>0\<close> for an empty value and in the \<open>except\<close> branch.
\<close>

definition inner_parse_money :: "pystr \<Rightarrow> int" where
  "inner_parse_money s =
     (if s = [] then 0
      else case py_int (remove_char 46 (remove_char 44 (cut_fraction s))) of
             None \<Rightarrow> 0
           | Some n \<Rightarrow> n)"

text \<open>The same function applied to an integer: \<open>not s\<close> holds for \<open>0\<close>, and \<open>str(s)\<close> is parsed.\<close>

definition inner_parse_money_int :: "int \<Rightarrow> int" where
  "inner_parse_money_int n = (if n = 0 then 0 else inner_parse_money (py_str_int n))"

text \<open>
  \<open>f"{val:,.0f}"\<close> converts the integer to a double first. \<open>to_float\<close> is that
  conversion (round to nearest, ties to even, 53 bits), with the integer value of the
  double as result and \<open>None\<close> for the \<open>OverflowError\<close>.
\<close>

definition to_float :: "int \<Rightarrow> int option" where
  "to_float n =
     (let a = \<bar>n\<bar> in
      if a < 2 ^ 53 then Some n
      else
        let e = nat (bitlen a) - 53;
            q = a div 2 ^ e;
            r = a mod 2 ^ e;
            h = 2 ^ (e - 1);
            q' = (if r > h \<or> (r = h \<and> odd q) then q + 1 else q);
            v = q' * 2 ^ e
        in if v \<ge> 2 ^ 1024 then None else Some (sgn n * v))"

text \<open>
  The nested \<open>format_money\<close> on an integer: parse it back, format with \<open>,.0f\<close>, replace
  the commas by dots; \<open>str(n)\<close> when the conversion raises.
\<close>

definition inner_format_money :: "int \<Rightarrow> pystr" where
  "inner_format_money n =
     (case to_float (inner_parse_money_int n) of
        None \<Rightarrow> py_str_int n
      | Some v \<Rightarrow> format_grouped 46 v)"

text \<open>\<open>_parse_money\<close> of \<open>validate_invoice_data\<close> (line 2536).\<close>

definition validate_parse_money :: "pystr \<Rightarrow> int" where
  "validate_parse_money s =
     (if s = [] then 0
      else case py_int (remove_char 46 (remove_char 44 (py_strip s))) of
             None \<Rightarrow> 0
           | Some n \<Rightarrow> n)"

section \<open>The invoice record\<close>

text \<open>
  The record is a Python \<open>dict\<close> from strings to strings, modelled as a map. Writing
  \<open>data[k] = v\<close> is the map update; \<open>dget\<close> reads a value, with the empty string for a
  key that is absent (\<open>data.get(k, "")\<close>; the subscript \<open>data[k]\<close> is only ever
  applied to keys that are present, see \<open>dom_init_data\<close> and the lemmas on the domain).
  A string is false in a condition exactly when it is empty.
\<close>

type_synonym pydict = "pystr \<rightharpoonup> pystr"

definition dget :: "pydict \<Rightarrow> pystr \<Rightarrow> pystr" where
  "dget d k = (case d k of None \<Rightarrow> [] | Some v \<Rightarrow> v)"

text \<open>The 19 keys, in the order of the initialisation at line 1126.\<close>

definition k_file :: pystr where
  "k_file = [84, 234, 110, 32, 102, 105, 108, 101]"
definition k_date :: pystr where
  "k_date = [78, 103, 224, 121, 32, 104, 243, 97, 32, 273, 417, 110]"
definition k_number :: pystr where
  "k_number = [83, 7889, 32, 104, 243, 97, 32, 273, 417, 110]"
definition k_seller :: pystr where
  "k_seller = [272, 417, 110, 32, 118, 7883, 32, 98, 225, 110]"
definition k_category :: pystr where
  "k_category = [80, 104, 226, 110, 32, 108, 111, 7841, 105]"
definition k_pretax :: pystr where
  "k_pretax = [83, 7889, 32, 116, 105, 7873, 110, 32, 116, 114, 432, 7899, 99, 32, 84, 104, 117, 7871]"
definition k_tax0 :: pystr where
  "k_tax0 = [84, 104, 117, 7871, 32, 48, 37]"
definition k_tax5 :: pystr where
  "k_tax5 = [84, 104, 117, 7871, 32, 53, 37]"
definition k_tax8 :: pystr where
  "k_tax8 = [84, 104, 117, 7871, 32, 56, 37]"
definition k_tax10 :: pystr where
  "k_tax10 = [84, 104, 117, 7871, 32, 49, 48, 37]"
definition k_other :: pystr where
  "k_other = [84, 104, 117, 7871, 32, 107, 104, 225, 99]"
definition k_tax :: pystr where
  "k_tax = [84, 105, 7873, 110, 32, 116, 104, 117, 7871]"
definition k_total :: pystr where
  "k_total = [83, 7889, 32, 116, 105, 7873, 110, 32, 115, 97, 117]"
definition k_link :: pystr where
  "k_link = [76, 105, 110, 107, 32, 108, 7845, 121, 32, 104, 243, 97, 32, 273, 417, 110]"
definition k_lookup :: pystr where
  "k_lookup = [77, 227, 32, 116, 114, 97, 32, 99, 7913, 117]"
definition k_taxcode :: pystr where
  "k_taxcode = [77, 227, 32, 115, 7889, 32, 116, 104, 117, 7871]"
definition k_cqt :: pystr where
  "k_cqt = [77, 227, 32, 67, 81, 84]"
definition k_serial :: pystr where
  "k_serial = [75, 253, 32, 104, 105, 7879, 117]"
definition k_fee :: pystr where
  "k_fee = [80, 104, 237, 32, 80, 86]"

lemmas key_defs =
  k_file_def k_date_def k_number_def k_seller_def k_category_def k_pretax_def k_tax0_def
  k_tax5_def k_tax8_def k_tax10_def k_other_def k_tax_def k_total_def k_link_def
  k_lookup_def k_taxcode_def k_cqt_def k_serial_def k_fee_def

definition all_keys :: "pystr list" where
  "all_keys =
     [k_file, k_date, k_number, k_seller, k_category, k_pretax, k_tax0, k_tax5, k_tax8,
      k_tax10, k_other, k_tax, k_total, k_link, k_lookup, k_taxcode, k_cqt, k_serial, k_fee]"

text \<open>The dictionary literal of line 1126: the file name, and every other field empty.\<close>

definition init_data :: "pystr \<Rightarrow> pydict" where
  "init_data filename = (map_of (map (\<lambda>k. (k, [])) all_keys))(k_file \<mapsto> filename)"

text \<open>
  The fields that the extraction from a text writes: one constructor for each key other
  than the file name. Every assignment to a dictionary in \<open>extract_ocr_invoice_fields\<close>
  (line 349) and in lines 1331 to 2152 of \<open>extract_invoice_data\<close> has one of these keys
  as its target, written as a literal; the targets \<open>data[column]\<close> of lines 1945, 1969
  and 1972 range over the tables of lines 1910 and 1950, whose columns are the four rate
  keys, and the target \<open>data[key]\<close> of line 2008 is modelled as it is computed.
\<close>

datatype field =
  F_date | F_number | F_seller | F_category | F_pretax | F_tax0 | F_tax5 | F_tax8 | F_tax10
| F_other | F_tax | F_total | F_link | F_lookup | F_taxcode | F_cqt | F_serial | F_fee

fun field_key :: "field \<Rightarrow> pystr" where
  "field_key F_date = k_date"
| "field_key F_number = k_number"
| "field_key F_seller = k_seller"
| "field_key F_category = k_category"
| "field_key F_pretax = k_pretax"
| "field_key F_tax0 = k_tax0"
| "field_key F_tax5 = k_tax5"
| "field_key F_tax8 = k_tax8"
| "field_key F_tax10 = k_tax10"
| "field_key F_other = k_other"
| "field_key F_tax = k_tax"
| "field_key F_total = k_total"
| "field_key F_link = k_link"
| "field_key F_lookup = k_lookup"
| "field_key F_taxcode = k_taxcode"
| "field_key F_cqt = k_cqt"
| "field_key F_serial = k_serial"
| "field_key F_fee = k_fee"

text \<open>A sequence of assignments \<open>data[key] = value\<close>, in the order in which they are executed.\<close>

definition assign :: "(field \<times> pystr) list \<Rightarrow> pydict \<Rightarrow> pydict" where
  "assign ws d = foldl (\<lambda>d w. d(field_key (fst w) \<mapsto> snd w)) d ws"

section \<open>Validation of a finished record\<close>

datatype severity = Error | Warning

record issue =
  field :: pystr
  severity :: severity
  message :: pystr

text \<open>
  \<open>re.match(r'^\d{1,2}/\d{1,2}/\d{4}$', s)\<close> and \<open>re.match(r'^[\d\-]{10,14}$', s)\<close>;
  \<open>$\<close> also matches before a final line feed.
\<close>

definition date_core :: "pystr \<Rightarrow> bool" where
  "date_core s \<longleftrightarrow>
     (case split_on 47 [] s of
        [a, b, c] \<Rightarrow>
          list_all is_digit a \<and> 1 \<le> length a \<and> length a \<le> 2 \<and>
          list_all is_digit b \<and> 1 \<le> length b \<and> length b \<le> 2 \<and>
          list_all is_digit c \<and> length c = 4
      | _ \<Rightarrow> False)"

definition match_date :: "pystr \<Rightarrow> bool" where
  "match_date s \<longleftrightarrow> date_core s \<or> (s \<noteq> [] \<and> last s = 10 \<and> date_core (butlast s))"

definition taxcode_core :: "pystr \<Rightarrow> bool" where
  "taxcode_core s \<longleftrightarrow>
     list_all (\<lambda>c. is_digit c \<or> c = 45) s \<and> 10 \<le> length s \<and> length s \<le> 14"

definition match_taxcode :: "pystr \<Rightarrow> bool" where
  "match_taxcode s \<longleftrightarrow> taxcode_core s \<or> (s \<noteq> [] \<and> last s = 10 \<and> taxcode_core (butlast s))"

text \<open>The messages of the issues, as the code points of the literals in the source.\<close>

definition m_seller :: pystr where
  "m_seller = [84, 104, 105, 7871, 117, 32, 104, 111, 7863, 99, 32, 113, 117, 225, 32, 110, 103, 7855, 110]"
definition m_number :: pystr where
  "m_number = [84, 104, 105, 7871, 117, 32, 115, 7889, 32, 104, 243, 97, 32, 273, 417, 110]"
definition m_date :: pystr where
  "m_date = [84, 104, 105, 7871, 117, 32, 110, 103, 224, 121, 32, 104, 243, 97, 32, 273, 417, 110]"
definition m_date_fmt :: pystr where
  "m_date_fmt = [272, 7883, 110, 104, 32, 100, 7841, 110, 103, 32, 110, 103, 224, 121, 32, 107, 104, 244, 110, 103, 32, 99, 104, 117, 7849, 110, 58, 32]"
definition m_pretax :: pystr where
  "m_pretax = [83, 7889, 32, 116, 105, 7873, 110, 32, 116, 114, 432, 7899, 99, 32, 116, 104, 117, 7871, 32, 61, 32, 48, 32, 104, 111, 7863, 99, 32, 116, 114, 7889, 110, 103]"
definition m_total :: pystr where
  "m_total = [83, 7889, 32, 116, 105, 7873, 110, 32, 115, 97, 117, 32, 116, 104, 117, 7871, 32, 61, 32, 48, 32, 104, 111, 7863, 99, 32, 116, 114, 7889, 110, 103]"
definition m_taxcode :: pystr where
  "m_taxcode = [84, 104, 105, 7871, 117, 32, 109, 227, 32, 115, 7889, 32, 116, 104, 117, 7871]"
definition m_taxcode_bad1 :: pystr where
  "m_taxcode_bad1 = [77, 83, 84, 32, 107, 104, 244, 110, 103, 32, 104, 7907, 112, 32, 108, 7879, 32, 40]"
definition m_taxcode_bad2 :: pystr where
  "m_taxcode_bad2 = [32, 107, 253, 32, 116, 7921, 41]"
definition m_link :: pystr where
  "m_link = [84, 104, 105, 7871, 117, 32, 108, 105, 110, 107, 32, 116, 114, 97, 32, 99, 7913, 117]"
definition m_lookup :: pystr where
  "m_lookup = [84, 104, 105, 7871, 117, 32, 109, 227, 32, 116, 114, 97, 32, 99, 7913, 117]"
definition m_serial :: pystr where
  "m_serial = [84, 104, 105, 7871, 117, 32, 107, 253, 32, 104, 105, 7879, 117]"
definition m_less1 :: pystr where
  "m_less1 = [83, 7889, 32, 116, 105, 7873, 110, 32, 115, 97, 117, 32, 40]"
definition m_less2 :: pystr where
  "m_less2 = [41, 32, 60, 32, 116, 114, 432, 7899, 99, 32, 116, 104, 117, 7871, 32, 40]"

text \<open>
  \<open>validate_invoice_data\<close> (line 2529). Each \<open>issues.append\<close> is a list that is empty
  when its condition fails; the result is their concatenation in the order of the source.
  The function only reads the record (\<open>data.get\<close>); the record after the call is returned
  as the second component.
\<close>

definition validate_invoice_data :: "pydict \<Rightarrow> issue list \<times> pydict" where
  "validate_invoice_data data =
     (let seller = py_strip (dget data k_seller);
          i_seller =
            (if seller = [] \<or> length seller < 5
             then [\<lparr>field = k_seller, severity = Error, message = m_seller\<rparr>] else []);
          i_number =
            (if py_strip (dget data k_number) = []
             then [\<lparr>field = k_number, severity = Error, message = m_number\<rparr>] else []);
          date_val = py_strip (dget data k_date);
          i_date =
            (if date_val = []
             then [\<lparr>field = k_date, severity = Error, message = m_date\<rparr>]
             else if \<not> match_date date_val
             then [\<lparr>field = k_date, severity = Warning, message = m_date_fmt @ date_val\<rparr>]
             else []);
          before_tax = validate_parse_money (dget data k_pretax);
          i_pretax =
            (if before_tax = 0
             then [\<lparr>field = k_pretax, severity = Error, message = m_pretax\<rparr>] else []);
          after_tax = validate_parse_money (dget data k_total);
          i_total =
            (if after_tax = 0
             then [\<lparr>field = k_total, severity = Error, message = m_total\<rparr>] else []);
          mst = py_strip (dget data k_taxcode);
          i_taxcode =
            (if mst = []
             then [\<lparr>field = k_taxcode, severity = Warning, message = m_taxcode\<rparr>]
             else if \<not> match_taxcode mst
             then [\<lparr>field = k_taxcode, severity = Warning,
                    message = m_taxcode_bad1 @ py_str_int (int (length mst)) @ m_taxcode_bad2\<rparr>]
             else []);
          i_link =
            (if py_strip (dget data k_link) = []
             then [\<lparr>field = k_link, severity = Warning, message = m_link\<rparr>] else []);
          i_lookup =
            (if py_strip (dget data k_lookup) = []
             then [\<lparr>field = k_lookup, severity = Warning, message = m_lookup\<rparr>] else []);
          i_serial =
            (if py_strip (dget data k_serial) = []
             then [\<lparr>field = k_serial, severity = Warning, message = m_serial\<rparr>] else []);
          i_less =
            (if before_tax > 0 \<and> after_tax > 0 \<and> after_tax < before_tax
             then [\<lparr>field = k_total, severity = Warning,
                    message = m_less1 @ format_grouped 44 after_tax @ m_less2 @
                              format_grouped 44 before_tax @ [41]\<rparr>]
             else [])
      in (i_seller @ i_number @ i_date @ i_pretax @ i_total @ i_taxcode @ i_link @
          i_lookup @ i_serial @ i_less, data))"

text \<open>The field and the severity of an issue, for statements about classification.\<close>

definition issue_class :: "issue \<Rightarrow> pystr \<times> severity" where
  "issue_class i = (field i, severity i)"

definition issue_classes :: "pydict \<Rightarrow> (pystr \<times> severity) list" where
  "issue_classes data = map issue_class (fst (validate_invoice_data data))"

text \<open>A record that is complete except that its date is written \<open>2025-01-05\<close>.\<close>

definition record_malformed_date :: pydict where
  "record_malformed_date = (init_data (lit ''a.pdf''))
     (k_seller \<mapsto> lit ''CONG TY ABC'', k_number \<mapsto> lit ''00012'',
      k_date \<mapsto> lit ''2025-01-05'', k_pretax \<mapsto> lit ''1.000.000'',
      k_total \<mapsto> lit ''1.080.000'')"

section \<open>Line items\<close>

text \<open>
  More string operations: \<open>s.startswith(p)\<close>, \<open>sub in s\<close>, \<open>s.replace(old, new)\<close>
  for a non-empty \<open>old\<close> (occurrences are replaced from the left, without overlap),
  \<open>s.split(sep)[0]\<close> and \<open>" ".join(parts)\<close>.
\<close>

definition starts_with :: "pystr \<Rightarrow> pystr \<Rightarrow> bool" where
  "starts_with p s \<longleftrightarrow> take (length p) s = p"

fun py_contains :: "pystr \<Rightarrow> pystr \<Rightarrow> bool" where
  "py_contains sub [] = (sub = [])"
| "py_contains sub (c # cs) = (starts_with sub (c # cs) \<or> py_contains sub cs)"

function py_replace :: "pystr \<Rightarrow> pystr \<Rightarrow> pystr \<Rightarrow> pystr" where
  "py_replace old new s =
     (if s = [] \<or> old = [] then s
      else if starts_with old s then new @ py_replace old new (drop (length old) s)
      else hd s # py_replace old new (tl s))"
  by pat_completeness auto
termination
  by (relation "measure (\<lambda>(old, new, s). length s)") auto

declare py_replace.simps [simp del]

fun before_sub :: "pystr \<Rightarrow> pystr \<Rightarrow> pystr" where
  "before_sub sub [] = []"
| "before_sub sub (c # cs) = (if starts_with sub (c # cs) then [] else c # before_sub sub cs)"

fun join_space :: "pystr list \<Rightarrow> pystr" where
  "join_space [] = []"
| "join_space [x] = x"
| "join_space (x # y # ys) = x @ [32] @ join_space (y # ys)"

fun join_lines :: "pystr list \<Rightarrow> pystr" where
  "join_lines [] = []"
| "join_lines [x] = x"
| "join_lines (x # y # ys) = x @ [10] @ join_lines (y # ys)"

text \<open>A line item: the dictionary appended at line 1065.\<close>

record service =
  name :: pystr
  qty :: pystr
  unit_price :: pystr
  amount :: pystr
  tax_rate :: "pystr option"

text \<open>
  \<open>extract_services_from_text\<close> (line 652). The loop over the lines and its first two
  exits are modelled: a line that is empty after stripping is skipped, and so is a line
  whose first white-space separated token is not made of digits only
  (\<open>first_token.isdigit()\<close>, line 663). The remainder of the loop body (lines 666 to
  1071: the regular expressions for the sequence number and the numbers, the search of
  the unit, the merging of neighbouring lines and the choice of quantity, price and
  amount) is the parameter \<open>item_of\<close>: it receives all lines, the index and the stripped
  line, and returns the item that is appended, or \<open>None\<close> when the body ends in a
  \<open>continue\<close>.
\<close>

definition first_token :: "pystr \<Rightarrow> pystr" where
  "first_token line = (case py_split line of [] \<Rightarrow> [] | t # ts \<Rightarrow> t)"

fun services_loop ::
  "(pystr list \<Rightarrow> nat \<Rightarrow> pystr \<Rightarrow> service option) \<Rightarrow> pystr list \<Rightarrow> nat \<Rightarrow> pystr list \<Rightarrow> service list"
where
  "services_loop item_of lines idx [] = []"
| "services_loop item_of lines idx (raw # rest) =
     (let line = py_strip raw in
        (if line = [] then []
         else if \<not> py_isdigit (first_token line) then []
         else (case item_of lines idx line of None \<Rightarrow> [] | Some it \<Rightarrow> [it])))
     @ services_loop item_of lines (Suc idx) rest"

definition extract_services_from_text ::
  "(pystr list \<Rightarrow> nat \<Rightarrow> pystr \<Rightarrow> service option) \<Rightarrow> pystr \<Rightarrow> service list"
where
  "extract_services_from_text item_of full_text =
     (let lines = py_lines full_text in services_loop item_of lines 0 lines)"

text \<open>
  The item line of the specification, \<open>1. Com ga nuong PHAN 2 45.000 90.000\<close> with its
  Vietnamese diacritics, as code points.
\<close>

definition com_ga_line :: pystr where
  "com_ga_line =
     [49, 46, 32, 67, 417, 109, 32, 103, 224, 32, 110, 432, 7899, 110, 103, 32, 80, 72, 7846,
      78, 32, 50, 32, 52, 53, 46, 48, 48, 48, 32, 57, 48, 46, 48, 48, 48]"

section \<open>The environment of extract_invoice_data\<close>

text \<open>
  What \<open>extract_invoice_data\<close> obtains from outside is collected in \<open>source\<close>: whether
  \<open>pdf_source\<close> is a path and its base name, what reading each page gives (the text of
  the page, \<open>None\<close> for a page without text, or an exception), the text returned by
  \<open>ocr_pdf_to_text\<close>, what the high-resolution OCR finds for the invoice number and the
  tax code (\<open>None\<close> when it finds nothing or fails), and the fallback text file.
\<close>

datatype page_read = Raises | Text "pystr option"

datatype fallback_file = Listing_raises | No_file | File_text pystr

record source =
  is_path :: bool
  basename :: pystr
  pages :: "page_read list"
  ocr_text :: pystr
  hd_number :: "pystr option"
  hd_taxcode :: "pystr option"
  fallback :: fallback_file

text \<open>
  The results of the regular-expression searches over the whole text, of case
  conversion and of the floating-point expressions are parameters, collected in
  \<open>engine\<close>:
  \<^item> \<open>py_lower\<close> is \<open>str.lower\<close>;
  \<^item> \<open>ocr_fields\<close> is \<open>extract_ocr_invoice_fields(text, filename)\<close>, as the list of the
    items of the dictionary it returns, or \<open>None\<close> when the call raises;
  \<^item> \<open>item_body\<close> is the remainder of the loop body of \<open>extract_services_from_text\<close>,
    and \<open>items_raise\<close> tells whether the call of line 1328 raises;
  \<^item> \<open>fields_before_rate\<close> stands for the cascade of patterns of lines 1331 to 1996 and
    \<open>fields_after_rate\<close> for that of lines 2012 to 2152: from the text, the file name and
    the record at the start of the block, each gives the assignments to the record that
    the block executes, in order, and \<open>True\<close> when the block ends with an exception (the
    assignments are then those executed before it);
  \<^item> \<open>summary_lines\<close> is the \<open>re.findall\<close> of line 2245, whose first group is one of
    \<open>10%\<close>, \<open>8%\<close>, \<open>5%\<close>, \<open>0%\<close>; \<open>grand_total\<close> the search of line 2289;
    \<open>provided_code\<close> and \<open>lookup_code\<close> the searches of lines 2307 and 2313;
    \<open>item_garbage\<close> the search of line 2358 (its group 0);
  \<^item> \<open>sub_issued\<close> and \<open>sub_seller_label\<close> are the two \<open>re.sub\<close> of lines 2512 and 2514;
  \<^item> \<open>round_pct t p\<close> is \<open>round(t / p * 100)\<close>, \<open>round_div100 x\<close> is
    \<open>int(round(x / 100))\<close> and \<open>exceeds_half a b\<close> is \<open>a > b * 0.5\<close>, all three
    evaluated in binary floating point by the interpreter.
\<close>

datatype rate_label = Pct10 | Pct8 | Pct5 | Pct0

record engine =
  py_lower :: "pystr \<Rightarrow> pystr"
  ocr_fields :: "pystr \<Rightarrow> pystr \<Rightarrow> (field \<times> pystr) list option"
  item_body :: "pystr list \<Rightarrow> nat \<Rightarrow> pystr \<Rightarrow> service option"
  items_raise :: "pystr \<Rightarrow> bool"
  fields_before_rate :: "pystr \<Rightarrow> pystr \<Rightarrow> pydict \<Rightarrow> (field \<times> pystr) list \<times> bool"
  fields_after_rate :: "pystr \<Rightarrow> pystr \<Rightarrow> pydict \<Rightarrow> (field \<times> pystr) list \<times> bool"
  summary_lines :: "pystr \<Rightarrow> (rate_label \<times> pystr \<times> pystr \<times> pystr) list"
  grand_total :: "pystr \<Rightarrow> (pystr \<times> pystr \<times> pystr) option"
  provided_code :: "pystr \<Rightarrow> pystr option"
  lookup_code :: "pystr \<Rightarrow> pystr option"
  item_garbage :: "pystr \<Rightarrow> pystr option"
  sub_issued :: "pystr \<Rightarrow> pystr"
  sub_seller_label :: "pystr \<Rightarrow> pystr"
  round_pct :: "int \<Rightarrow> int \<Rightarrow> int"
  round_div100 :: "int \<Rightarrow> int"
  exceeds_half :: "int \<Rightarrow> int \<Rightarrow> bool"

section \<open>extract_invoice_data: reading the text, OCR, cleaning\<close>

text \<open>Lines 1121 to 1124: the file name.\<close>

definition resolve_filename :: "source \<Rightarrow> pystr option \<Rightarrow> pystr" where
  "resolve_filename src fname =
     (if is_path src then basename src
      else case fname of None \<Rightarrow> lit ''Unknown.pdf'' | Some f \<Rightarrow> f)"

text \<open>
  Lines 1152 to 1157: the text of the pages, each followed by a line feed; the flag tells
  that reading raised, with the text gathered until then.
\<close>

fun read_pages :: "page_read list \<Rightarrow> pystr \<Rightarrow> pystr \<times> bool" where
  "read_pages [] acc = (acc, False)"
| "read_pages (Raises # ps) acc = (acc, True)"
| "read_pages (Text None # ps) acc = read_pages ps acc"
| "read_pages (Text (Some t) # ps) acc = read_pages ps (if t = [] then acc else acc @ t @ [10])"

text \<open>Lines 1165 to 1168: only keys of the record are taken over, and only non-empty values.\<close>

definition apply_ocr_fields :: "(field \<times> pystr) list \<Rightarrow> pydict \<Rightarrow> pydict" where
  "apply_ocr_fields kvs d =
     foldl (\<lambda>d kv. if d (field_key (fst kv)) \<noteq> None \<and> snd kv \<noteq> []
                    then d(field_key (fst kv) \<mapsto> snd kv) else d) d kvs"

text \<open>Lines 1172 to 1228: the high-resolution pass for a missing number or tax code.\<close>

definition hd_ocr_fix :: "source \<Rightarrow> pydict \<Rightarrow> pydict" where
  "hd_ocr_fix src d =
     (if dget d k_number = [] \<or> dget d k_taxcode = [] then
        (let d1 = (if dget d k_number = []
                   then (case hd_number src of None \<Rightarrow> d | Some v \<Rightarrow> d(k_number \<mapsto> v))
                   else d)
         in if dget d1 k_taxcode = []
            then (case hd_taxcode src of None \<Rightarrow> d1 | Some v \<Rightarrow> d1(k_taxcode \<mapsto> v))
            else d1)
      else d)"

text \<open>Lines 1231 to 1242: the category chosen from key words of the OCR text.\<close>

definition ocr_category :: "engine \<Rightarrow> pystr \<Rightarrow> pystr" where
  "ocr_category eng ocr =
     (let low = py_lower eng ocr in
      if list_ex (\<lambda>x. py_contains x low)
           [lit ''petrolimex'', [120, 259, 110, 103], lit ''ron 95'', lit ''ron95'',
            lit ''diesel'', [100, 7847, 117, 32, 100, 105, 101, 115, 101, 108]]
        then [88, 259, 110, 103, 32, 120, 101]
      else if list_ex (\<lambda>x. py_contains x low)
           [[107, 104, 225, 99, 104, 32, 115, 7841, 110], lit ''hotel'',
            [112, 104, 242, 110, 103, 32, 110, 103, 104, 7881]]
        then [68, 7883, 99, 104, 32, 118, 7909, 32, 112, 104, 242, 110, 103, 32, 110, 103, 104, 7881]
      else if list_ex (\<lambda>x. py_contains x low)
           [[110, 104, 224, 32, 104, 224, 110, 103], [113, 117, 225, 110, 32, 259, 110],
            [109, 243, 110, 32, 259, 110]]
        then [68, 7883, 99, 104, 32, 118, 7909, 32, 259, 110, 32, 117, 7889, 110, 103]
      else [75, 104, 225, 99])"

text \<open>Lines 1165 to 1244, given the dictionary of the OCR fields.\<close>

definition ocr_path :: "engine \<Rightarrow> source \<Rightarrow> (field \<times> pystr) list \<Rightarrow> pydict \<Rightarrow> pydict" where
  "ocr_path eng src kvs d =
     (let d1 = apply_ocr_fields kvs d;
          d2 = hd_ocr_fix src d1
      in d2(k_category \<mapsto> ocr_category eng (ocr_text src)))"

text \<open>
  \<open>re.search(r"0'}([\d\.,]+)'\}'\}", s)\<close>: the leftmost match, as the pair of the whole
  match and its group. The run of digits and separators is maximal, since the quote
  that must follow is not in the class.
\<close>

definition is_amount_char :: "nat \<Rightarrow> bool" where
  "is_amount_char c \<longleftrightarrow> is_digit c \<or> c = 46 \<or> c = 44"

definition garbage_at :: "pystr \<Rightarrow> (pystr \<times> pystr) option" where
  "garbage_at s =
     (if starts_with [48, 39, 125] s then
        (let r = drop 3 s; v = takeWhile is_amount_char r in
         if v \<noteq> [] \<and> starts_with [39, 125, 39, 125] (dropWhile is_amount_char r)
         then Some ([48, 39, 125] @ v @ [39, 125, 39, 125], v) else None)
      else None)"

fun garbage_search :: "pystr \<Rightarrow> (pystr \<times> pystr) option" where
  "garbage_search [] = None"
| "garbage_search (c # cs) =
     (case garbage_at (c # cs) of Some m \<Rightarrow> Some m | None \<Rightarrow> garbage_search cs)"

text \<open>Line 1278, one round: the four garbage tokens are removed in turn.\<close>

definition strip_garbage_tokens :: "pystr \<Rightarrow> pystr" where
  "strip_garbage_tokens s =
     py_replace [123, 39] [] (py_replace [39, 125] [] (py_replace [39, 125, 39, 125] []
       (py_replace [48, 39, 125] [] s)))"

text \<open>
  Lines 1254 to 1287, for one line: the line to keep (\<open>None\<close> when it is dropped) and the
  record, in which a number hidden in garbage becomes the total when none is set.
\<close>

definition clean_line :: "pystr \<Rightarrow> pydict \<Rightarrow> pystr option \<times> pydict" where
  "clean_line line d =
     (let line_strip = py_strip line;
          found = garbage_search line;
          d1 = (case found of
                  None \<Rightarrow> d
                | Some m \<Rightarrow> if dget d k_total = [] then d(k_total \<mapsto> snd m) else d);
          line1 = (case found of
                     None \<Rightarrow> line
                   | Some m \<Rightarrow> py_replace (fst m) ([32] @ snd m @ [32]) line);
          line2 = strip_garbage_tokens (strip_garbage_tokens (strip_garbage_tokens line1))
      in if starts_with [123] line_strip \<or>
            (starts_with [39] line_strip \<and> line_strip \<noteq> [] \<and> last line_strip = 39)
         then (None, d1)
         else (Some (remove_char 0 (remove_char 173 line2)), d1))"

fun cleanup_lines :: "pystr list \<Rightarrow> pydict \<Rightarrow> pystr list \<times> pydict" where
  "cleanup_lines [] d = ([], d)"
| "cleanup_lines (l # ls) d =
     (case clean_line l d of
        (kept, d1) \<Rightarrow>
          (case cleanup_lines ls d1 of
             (rest, d2) \<Rightarrow> ((case kept of None \<Rightarrow> rest | Some x \<Rightarrow> x # rest), d2)))"

definition normalize_newlines :: "pystr \<Rightarrow> pystr" where
  "normalize_newlines t = py_replace [13] [10] (py_replace [13, 10] [10] t)"

text \<open>Lines 1322 to 1324: every field but the file name becomes the sentinel.\<close>

definition sentinel :: pystr where
  "sentinel =
     [107, 104, 244, 110, 103, 32, 110, 104, 7853, 110, 32, 100, 105, 7879, 110, 32, 273, 432,
      7907, 99]"

definition sentinel_all :: "pydict \<Rightarrow> pydict" where
  "sentinel_all d = (\<lambda>k. if k = k_file then d k else map_option (\<lambda>v. sentinel) (d k))"

section \<open>extract_invoice_data: the extraction of the fields\<close>

text \<open>The prefix shared by the keys of the rate buckets, as in the f-string of line 2005.\<close>

definition thue_prefix :: pystr where
  "thue_prefix = [84, 104, 117, 7871, 32]"

text \<open>
  Lines 1997 to 2010: when there is a total tax and none of the four rate buckets is
  filled, the total tax is copied to the bucket of the rounded rate, and to the field of
  the other taxes when the rate is not one of 0, 5, 8, 10.
\<close>

definition early_rate_pass :: "engine \<Rightarrow> pydict \<Rightarrow> pydict" where
  "early_rate_pass eng d =
     (if dget d k_tax \<noteq> [] \<and> \<not> list_ex (\<lambda>c. dget d c \<noteq> []) [k_tax0, k_tax5, k_tax8, k_tax10] then
        (let total_tax = inner_parse_money (dget d k_tax);
             before_tax = inner_parse_money (dget d k_pretax)
         in if total_tax \<noteq> 0 \<and> before_tax \<noteq> 0 \<and> before_tax > 0 then
              (let rate = round_pct eng total_tax before_tax in
               if rate \<in> {0, 5, 8, 10}
               then d(thue_prefix @ py_str_int rate @ [37] \<mapsto> dget d k_tax)
               else d(k_other \<mapsto> dget d k_tax))
            else d)
      else d)"

text \<open>
  Lines 1331 to 2152: the first cascade of patterns, the rate pass, the second cascade.
  The result is the record at line 2153, or the record at the point where an exception
  was raised, with \<open>True\<close>.
\<close>

definition field_stage :: "engine \<Rightarrow> pystr \<Rightarrow> pystr \<Rightarrow> pydict \<Rightarrow> pydict \<times> bool" where
  "field_stage eng full_text filename d =
     (let a = fields_before_rate eng full_text filename d;
          d1 = assign (fst a) d
      in if snd a then (d1, True)
         else (let d2 = early_rate_pass eng d1;
                   b = fields_after_rate eng full_text filename d2
               in (assign (fst b) d2, snd b)))"

section \<open>extract_invoice_data: reconciliation of the amounts\<close>

text \<open>
  Lines 2153 to 2431, one definition for each block of the source, in its order. Inside
  \<open>extract_invoice_data\<close> the name \<open>parse_money\<close> is the nested function, which returns
  an integer for every argument; the tests \<open>is not None\<close> of lines 2157, 2164 and 2188
  therefore always hold, and the \<open>elif\<close> branches of lines 2166 to 2181 cannot be taken.
\<close>

text \<open>Lines 2155 to 2158: a pre-tax amount, tax or total below 1000 is cleared.\<close>

definition validate_money :: "pydict \<Rightarrow> pydict" where
  "validate_money d =
     foldl (\<lambda>d col. if inner_parse_money (dget d col) < 1000 then d(col \<mapsto> []) else d) d
       [k_pretax, k_tax, k_total]"

text \<open>Lines 2161 to 2165: a missing total is the sum of the pre-tax amount and the tax.\<close>

definition calc_total :: "pydict \<Rightarrow> pydict" where
  "calc_total d =
     (if dget d k_total = []
      then d(k_total \<mapsto> inner_format_money
             (inner_parse_money (dget d k_pretax) + inner_parse_money (dget d k_tax)))
      else d)"

text \<open>Lines 2185 to 2194: a missing pre-tax amount is the total, less the tax when there is one.\<close>

definition reverse_case :: "pydict \<Rightarrow> pydict" where
  "reverse_case d =
     (if dget d k_total \<noteq> [] \<and> dget d k_pretax = [] then
        (let after = inner_parse_money (dget d k_total);
             vat = inner_parse_money (dget d k_tax)
         in if vat = 0 then d(k_pretax \<mapsto> dget d k_total)
            else d(k_pretax \<mapsto> inner_format_money (after - vat)))
      else d)"

text \<open>Lines 2200 to 2207: a total hidden in garbage.\<close>

definition garbage_total_fix :: "pystr \<Rightarrow> pydict \<Rightarrow> pydict" where
  "garbage_total_fix full_text d =
     (if dget d k_total = [] then
        (case garbage_search full_text of
           None \<Rightarrow> d
         | Some m \<Rightarrow>
             (let d1 = d(k_total \<mapsto> snd m)
              in if dget d1 k_pretax = [] then d1(k_pretax \<mapsto> snd m) else d1))
      else d)"

text \<open>
  Lines 2211 to 2229: the sum of the line items as pre-tax amount. At this point of the
  source \<open>line_items\<close> is still the empty list of line 1148.
\<close>

definition sum_items :: "service list \<Rightarrow> int" where
  "sum_items items =
     foldl (\<lambda>acc it. let amt = inner_parse_money (amount it) in
                      if amt \<noteq> 0 then acc + amt else acc) 0 items"

definition items_fallback :: "service list \<Rightarrow> pydict \<Rightarrow> pydict" where
  "items_fallback line_items d =
     (if (dget d k_pretax = [] \<or> dget d k_total = []) \<and> line_items \<noteq> [] then
        (let total_items = sum_items line_items in
         if total_items > 0 then
           (if dget d k_pretax = [] \<and> dget d k_total = []
              then d(k_pretax \<mapsto> inner_format_money total_items)
            else if dget d k_pretax = []
              then d(k_pretax \<mapsto> inner_format_money total_items)
            else d)
         else d)
      else d)"

text \<open>Lines 2232 to 2236.\<close>

definition rerun_total :: "pydict \<Rightarrow> pydict" where
  "rerun_total d =
     (if dget d k_tax \<noteq> [] \<and> dget d k_total = [] \<and> dget d k_pretax \<noteq> [] then
        (let b = inner_parse_money (dget d k_pretax); t = inner_parse_money (dget d k_tax)
         in if b \<noteq> 0 \<and> t \<noteq> 0 then d(k_total \<mapsto> inner_format_money (b + t)) else d)
      else d)"

text \<open>
  Lines 2245 to 2285: the summary lines of the footer. The key written is the prefix
  shared by the rate keys followed by the matched rate (the f-string of line 2272).
\<close>

fun rate_text :: "rate_label \<Rightarrow> pystr" where
  "rate_text Pct10 = [49, 48, 37]"
| "rate_text Pct8 = [56, 37]"
| "rate_text Pct5 = [53, 37]"
| "rate_text Pct0 = [48, 37]"

definition summary_line ::
  "pydict \<times> int \<Rightarrow> rate_label \<times> pystr \<times> pystr \<times> pystr \<Rightarrow> pydict \<times> int"
where
  "summary_line st row =
     (case row of (r, n1, n2, n3) \<Rightarrow>
        (let vals = sort (map inner_parse_money (filter (\<lambda>n. n \<noteq> []) [n1, n2, n3])) in
         if 2 \<le> length vals
         then ((fst st)(thue_prefix @ rate_text r \<mapsto> inner_format_money (hd vals)),
               snd st + hd vals)
         else st))"

definition summary_tables :: "engine \<Rightarrow> pystr \<Rightarrow> pydict \<Rightarrow> pydict" where
  "summary_tables eng full_text d =
     (let st = foldl summary_line (d, 0) (summary_lines eng full_text);
          d1 = fst st; tax_total_calc = snd st
      in if tax_total_calc > 0 \<and>
            (dget d1 k_tax = [] \<or> inner_parse_money (dget d1 k_tax) \<noteq> tax_total_calc)
         then d1(k_tax \<mapsto> inner_format_money tax_total_calc)
         else d1)"

text \<open>Lines 2289 to 2302: a grand-total line gives tax, pre-tax amount and total, in size order.\<close>

definition grand_total_line :: "engine \<Rightarrow> pystr \<Rightarrow> pydict \<Rightarrow> pydict" where
  "grand_total_line eng full_text d =
     (case grand_total eng full_text of
        None \<Rightarrow> d
      | Some g \<Rightarrow>
          (let vals = sort [inner_parse_money (fst g), inner_parse_money (fst (snd g)),
                            inner_parse_money (snd (snd g))]
           in d(k_tax \<mapsto> inner_format_money (vals ! 0),
                k_pretax \<mapsto> inner_format_money (vals ! 1),
                k_total \<mapsto> inner_format_money (vals ! 2))))"

text \<open>Lines 2305 to 2315.\<close>

definition lookup_code_fix :: "engine \<Rightarrow> pystr \<Rightarrow> pydict \<Rightarrow> pydict" where
  "lookup_code_fix eng full_text d =
     (if dget d k_lookup = [] then
        (let d1 = (case provided_code eng full_text of None \<Rightarrow> d
                   | Some c \<Rightarrow> d(k_lookup \<mapsto> c))
         in case lookup_code eng full_text of None \<Rightarrow> d1 | Some c \<Rightarrow> d1(k_lookup \<mapsto> c))
      else d)"

text \<open>Lines 2319 to 2345: a bare rate in the field of the other taxes.\<close>

definition fill_other_rate :: "engine \<Rightarrow> pydict \<Rightarrow> pydict" where
  "fill_other_rate eng d =
     (let other = dget d k_other in
      if other \<in> set [lit ''10'', lit ''8'', lit ''5'', lit ''0''] then
        (let rate_key = thue_prefix @ other @ [37] in
         if dget d rate_key = [] \<and> dget d k_tax \<noteq> []
           then d(rate_key \<mapsto> dget d k_tax, k_other \<mapsto> [])
         else if dget d rate_key = [] \<and> dget d k_pretax \<noteq> [] then
           (case py_int other of
              None \<Rightarrow> d
            | Some rate \<Rightarrow>
                (let pre = inner_parse_money (dget d k_pretax) in
                 if pre \<noteq> 0 then
                   (let calc_tax = round_div100 eng (pre * rate);
                        d1 = d(rate_key \<mapsto> inner_format_money calc_tax);
                        d2 = (if dget d1 k_tax = []
                              then d1(k_tax \<mapsto> inner_format_money calc_tax) else d1);
                        current_total = inner_parse_money (dget d2 k_total);
                        pre_val = inner_parse_money (dget d2 k_pretax);
                        d3 = (if dget d2 k_total = [] \<or>
                                 (current_total \<noteq> 0 \<and> pre_val \<noteq> 0 \<and>
                                  \<bar>current_total - pre_val\<bar> < 100)
                              then d2(k_total \<mapsto> inner_format_money (pre + calc_tax))
                              else d2)
                    in d3(k_other \<mapsto> []))
                 else d))
         else d)
      else d)"

text \<open>Lines 2353 to 2364: garbage is removed from the name and the amount of every item.\<close>

definition clean_item_value :: "engine \<Rightarrow> pystr \<Rightarrow> pystr" where
  "clean_item_value eng v =
     (if py_contains [48, 39, 125] v \<or> py_contains [125, 39, 125] v then
        (case item_garbage eng v of
           Some m \<Rightarrow> py_strip (py_replace m [] v)
         | None \<Rightarrow> py_strip (strip_garbage_tokens v))
      else v)"

definition clean_item :: "engine \<Rightarrow> service \<Rightarrow> service" where
  "clean_item eng it =
     it\<lparr>name := clean_item_value eng (name it), amount := clean_item_value eng (amount it)\<rparr>"

text \<open>
  Lines 2367 to 2411: the tax of the items, summed by rate, and its use for the buckets
  and the total tax. \<open>tax_map\<close> is a function on the four rates.
\<close>

definition item_tax :: "engine \<Rightarrow> (int \<Rightarrow> int) \<times> bool \<Rightarrow> service \<Rightarrow> (int \<Rightarrow> int) \<times> bool" where
  "item_tax eng st it =
     (case tax_rate it of
        None \<Rightarrow> st
      | Some r_str \<Rightarrow>
          if r_str \<noteq> [] \<and> amount it \<noteq> [] then
            (case py_int r_str of
               None \<Rightarrow> st
             | Some r \<Rightarrow>
                 if r \<in> {0, 5, 8, 10}
                 then ((fst st)(r := fst st r + round_div100 eng (inner_parse_money (amount it) * r)),
                       True)
                 else st)
          else st)"

definition fill_bucket :: "engine \<Rightarrow> (int \<Rightarrow> int) \<Rightarrow> pydict \<Rightarrow> int \<Rightarrow> pydict" where
  "fill_bucket eng tax_map d r =
     (let key = thue_prefix @ py_str_int r @ [37] in
      if tax_map r > 0 then
        (let curr_val = inner_parse_money (dget d key);
             diff = \<bar>curr_val - tax_map r\<bar>
         in if curr_val = 0 \<or> exceeds_half eng diff (tax_map r)
            then d(key \<mapsto> inner_format_money (tax_map r)) else d)
      else d)"

definition aggregate_item_tax :: "engine \<Rightarrow> service list \<Rightarrow> pydict \<Rightarrow> pydict" where
  "aggregate_item_tax eng line_items d =
     (let st = foldl (item_tax eng) (\<lambda>r. 0, False) line_items;
          tax_map = fst st
      in if snd st then
           (let d1 = foldl (fill_bucket eng tax_map) d [0, 5, 8, 10];
                total_item_tax = tax_map 0 + tax_map 5 + tax_map 8 + tax_map 10;
                curr_total_tax = inner_parse_money (dget d1 k_tax)
            in if curr_total_tax = 0 \<or>
                  (total_item_tax > curr_total_tax \<and> total_item_tax > 1000)
               then d1(k_tax \<mapsto> inner_format_money total_item_tax) else d1)
         else d)"

text \<open>Lines 2415 to 2431: a tax that is not smaller than the amount it is drawn from is dropped.\<close>

definition sanity_check_tax :: "pydict \<Rightarrow> pydict" where
  "sanity_check_tax d =
     (if dget d k_tax \<noteq> [] \<and> (dget d k_pretax \<noteq> [] \<or> dget d k_total \<noteq> []) then
        (let t_val = inner_parse_money (dget d k_tax);
             p0 = inner_parse_money (dget d k_pretax);
             p_val = (if p0 = 0 \<and> dget d k_total \<noteq> []
                      then inner_parse_money (dget d k_total) else p0)
         in if t_val \<noteq> 0 \<and> p_val \<noteq> 0 \<and> p_val > 10000 \<and> t_val \<ge> p_val then
              foldl (\<lambda>d c. if inner_parse_money (dget d c) = t_val then d(c \<mapsto> []) else d)
                (d(k_tax \<mapsto> [])) [k_tax0, k_tax5, k_tax8, k_tax10, k_other]
            else d)
      else d)"

text \<open>Lines 2350 to 2431: all of this happens only when there are line items.\<close>

definition services_block :: "engine \<Rightarrow> service list \<Rightarrow> pydict \<Rightarrow> pydict \<times> service list" where
  "services_block eng services d =
     (if services \<noteq> [] then
        (let line_items = map (clean_item eng) services
         in (sanity_check_tax (aggregate_item_tax eng line_items d), line_items))
      else (d, []))"

text \<open>Lines 2153 to 2431 together.\<close>

definition reconcile ::
  "engine \<Rightarrow> pystr \<Rightarrow> service list \<Rightarrow> pydict \<Rightarrow> pydict \<times> service list"
where
  "reconcile eng full_text services d =
     services_block eng services
       (fill_other_rate eng
         (lookup_code_fix eng full_text
           (grand_total_line eng full_text
             (summary_tables eng full_text
               (rerun_total
                 (items_fallback []
                   (garbage_total_fix full_text
                     (reverse_case (calc_total (validate_money d))))))))))"

section \<open>extract_invoice_data: the final passes\<close>

text \<open>Lines 2437 to 2444: a missing total tax is the sum of the five buckets.\<close>

definition recalc_total_tax :: "pydict \<Rightarrow> pydict" where
  "recalc_total_tax d =
     (if dget d k_tax = [] then
        (let calc_tax = sum_list (map (\<lambda>c. inner_parse_money (dget d c))
                                  [k_tax0, k_tax5, k_tax8, k_tax10, k_other])
         in if calc_tax > 0 then d(k_tax \<mapsto> inner_format_money calc_tax) else d)
      else d)"

text \<open>Lines 2448 to 2459: the rate is inferred when no rate bucket is filled.\<close>

definition final_rate_pass :: "engine \<Rightarrow> pydict \<Rightarrow> pydict" where
  "final_rate_pass eng d =
     (if dget d k_tax \<noteq> [] \<and> dget d k_pretax \<noteq> [] \<and>
         \<not> list_ex (\<lambda>c. dget d c \<noteq> []) [k_tax0, k_tax5, k_tax8, k_tax10] then
        (let t_val = inner_parse_money (dget d k_tax);
             p_val = inner_parse_money (dget d k_pretax)
         in if t_val > 0 \<and> p_val > 0 then
              (let rate = round_pct eng t_val p_val in
               if rate \<in> {0, 5, 8, 10}
               then d(thue_prefix @ py_str_int rate @ [37] \<mapsto> dget d k_tax)
               else d)
            else d)
      else d)"

text \<open>\<open>clean_string_value\<close> (line 2588), applied to every value at lines 2462 to 2464.\<close>

definition clean_string_value :: "pystr \<Rightarrow> pystr" where
  "clean_string_value v =
     join_space (py_split (map (\<lambda>c. if c = 9 then 32 else c) (remove_char 173 (remove_char 13 v))))"

definition clean_all :: "pydict \<Rightarrow> pydict" where
  "clean_all d = (\<lambda>k. map_option clean_string_value (d k))"

text \<open>Lines 2467 to 2479.\<close>

definition other_cleanup :: "pydict \<Rightarrow> pydict" where
  "other_cleanup d =
     (if dget d k_other \<noteq> [] then
        (let d1 = (if dget d k_other \<in> set [lit ''10'', lit ''8'', lit ''5'', lit ''0'']
                   then (if dget d (thue_prefix @ dget d k_other @ [37]) \<noteq> []
                         then d(k_other \<mapsto> []) else d)
                   else d);
             v_num = inner_parse_money (dget d1 k_other);
             t_num = inner_parse_money (dget d1 k_total);
             tax_num = inner_parse_money (dget d1 k_tax)
         in if v_num \<noteq> 0 \<and> (v_num = t_num \<or> v_num = tax_num) then d1(k_other \<mapsto> []) else d1)
      else d)"

text \<open>Lines 2482 to 2494: every money field that parses to a non-zero amount is reformatted.\<close>

definition money_keys :: "pystr list" where
  "money_keys = [k_pretax, k_tax, k_tax0, k_tax5, k_tax8, k_tax10, k_other, k_total]"

definition money_cleanup :: "pydict \<Rightarrow> pydict" where
  "money_cleanup d =
     foldl (\<lambda>d k. if d k \<noteq> None \<and> dget d k \<noteq> [] then
                     (let val = inner_parse_money (dget d k) in
                      if val \<noteq> 0 then d(k \<mapsto> inner_format_money val) else d)
                   else d) d money_keys"

text \<open>Lines 2498 to 2524: the seller name.\<close>

definition seller_blacklisted :: "engine \<Rightarrow> pystr \<Rightarrow> bool" where
  "seller_blacklisted eng s \<longleftrightarrow>
     list_ex (\<lambda>bad. py_contains bad (py_lower eng s))
       [[273, 227, 32, 273, 432, 7907, 99, 32, 107, 253, 32, 273, 105, 7879, 110, 32, 116, 7917,
         32, 98, 7903, 105],
        [273, 432, 7907, 99, 32, 107, 253, 32, 98, 7903, 105],
        [107, 253, 32, 98, 7903, 105, 32, 99, 244, 110, 103, 32, 116, 121],
        lit ''digitally signed by'']"

definition quan87 :: pystr where
  "quan87 = [81, 117, 225, 110, 32, 56, 55]"

definition ky_hieu_colon :: pystr where
  "ky_hieu_colon = [75, 253, 32, 104, 105, 7879, 117, 58]"

definition seller_cleanup :: "engine \<Rightarrow> pystr \<Rightarrow> pydict \<Rightarrow> pydict" where
  "seller_cleanup eng full_text d =
     (let d1 = (if dget d k_seller \<noteq> [] \<and> seller_blacklisted eng (dget d k_seller)
                then d(k_seller \<mapsto> []) else d);
          d2 = (if dget d1 k_seller = [] \<and> py_contains quan87 full_text
                then d1(k_seller \<mapsto> quan87) else d1)
      in if dget d2 k_seller \<noteq> [] then
           (let s1 = py_strip (sub_issued eng (dget d2 k_seller));
                s2 = sub_seller_label eng s1;
                s3 = (if py_contains ky_hieu_colon s2
                      then py_strip (before_sub ky_hieu_colon s2) else s2);
                s4 = (if seller_blacklisted eng s3 then [] else s3)
            in d2(k_seller \<mapsto> s4))
         else d2)"

text \<open>Lines 2436 to 2526: what follows the \<open>try\<close> statement, and the return.\<close>

definition finish :: "engine \<Rightarrow> pystr \<Rightarrow> pydict \<Rightarrow> pydict" where
  "finish eng full_text d =
     seller_cleanup eng full_text
       (money_cleanup (other_cleanup (clean_all (final_rate_pass eng (recalc_total_tax d)))))"

section \<open>extract_invoice_data as a whole\<close>

text \<open>
  Lines 1150 to 2152, the part of the \<open>try\<close> statement that reads the text and extracts
  the fields. It ends in one of three ways: with one of the \<open>return\<close> statements of lines
  1244, 1247 and 1325; with an exception, at a point where the text and the record have
  the given values; or at line 2153, with the text, the items found by
  \<open>extract_services_from_text\<close> and the record.
\<close>

datatype extraction =
  Returns pydict
| Raised pystr pydict
| Extracted pystr "service list" pydict

definition field_extraction :: "engine \<Rightarrow> source \<Rightarrow> pystr option \<Rightarrow> extraction" where
  "field_extraction eng src fname =
     (let filename = resolve_filename src fname;
          data = init_data filename;
          rd = read_pages (pages src) []
      in if snd rd then Raised (fst rd) data
         else if py_strip (fst rd) = [] then
           (if py_strip (ocr_text src) \<noteq> [] then
              (case ocr_fields eng (ocr_text src) filename of
                 None \<Rightarrow> Raised (fst rd) data
               | Some kvs \<Rightarrow> Returns (ocr_path eng src kvs data))
            else Returns data)
         else
           (let cl = cleanup_lines (py_lines (normalize_newlines (fst rd))) data;
                text1 = join_lines (fst cl);
                data1 = snd cl
            in if text1 = [] \<and> is_path src \<and> fallback src = Listing_raises
                 then Raised text1 data1
               else
                 (let text2 = (if text1 = [] \<and> is_path src
                               then (case fallback src of File_text t \<Rightarrow> t | _ \<Rightarrow> text1)
                               else text1)
                  in if py_strip text2 = [] then Returns (sentinel_all data1)
                     else if items_raise eng text2 then Raised text2 data1
                     else
                       (let services = extract_services_from_text (item_body eng) text2;
                            fs = field_stage eng text2 filename data1
                        in if snd fs then Raised text2 (fst fs)
                           else Extracted text2 services (fst fs)))))"

text \<open>
  The whole \<open>try\<close> statement, lines 1150 to 2434: either the function has returned, or
  it goes on to the final passes with a text, a record and the line items. After an
  exception (line 2433) the record is as it was at that point and there are no line
  items.
\<close>

datatype try_result =
  Early_return pydict
| Final_passes pystr pydict "service list"

definition try_block :: "engine \<Rightarrow> source \<Rightarrow> pystr option \<Rightarrow> try_result" where
  "try_block eng src fname =
     (case field_extraction eng src fname of
        Returns d \<Rightarrow> Early_return d
      | Raised t d \<Rightarrow> Final_passes t d []
      | Extracted t services d \<Rightarrow>
          (let rc = reconcile eng t services d in Final_passes t (fst rc) (snd rc)))"

text \<open>The function of line 1075.\<close>

definition extract_invoice_data ::
  "engine \<Rightarrow> source \<Rightarrow> pystr option \<Rightarrow> pydict \<times> service list"
where
  "extract_invoice_data eng src fname =
     (case try_block eng src fname of
        Early_return d \<Rightarrow> (d, [])
      | Final_passes t d line_items \<Rightarrow> (finish eng t d, line_items))"

text \<open>
  The part of the function from the validation of the amounts to the return, as a
  function of the record at line 2153: the reconciliation and the final passes.
\<close>

definition reconcile_and_finish ::
  "engine \<Rightarrow> pystr \<Rightarrow> service list \<Rightarrow> pydict \<Rightarrow> pydict"
where
  "reconcile_and_finish eng full_text services d =
     finish eng full_text (fst (reconcile eng full_text services d))"

text \<open>
  An engine for concrete evaluations: no pattern of the text matches, case conversion
  and the substitutions leave their argument as it is, and the three floating-point
  expressions are computed exactly (\<open>round\<close> takes a half to the even neighbour).
\<close>

definition round_half_even :: "int \<Rightarrow> int \<Rightarrow> int" where
  "round_half_even a b =
     (let q = a div b; r = a mod b in
      if 2 * r < b then q else if 2 * r > b then q + 1 else if even q then q else q + 1)"

definition plain_engine :: engine where
  "plain_engine =
     \<lparr>py_lower = (\<lambda>s. s),
      ocr_fields = (\<lambda>t f. Some []),
      item_body = (\<lambda>ls i l. None),
      items_raise = (\<lambda>t. False),
      fields_before_rate = (\<lambda>t f d. ([], False)),
      fields_after_rate = (\<lambda>t f d. ([], False)),
      summary_lines = (\<lambda>t. []),
      grand_total = (\<lambda>t. None),
      provided_code = (\<lambda>t. None),
      lookup_code = (\<lambda>t. None),
      item_garbage = (\<lambda>v. None),
      sub_issued = (\<lambda>s. s),
      sub_seller_label = (\<lambda>s. s),
      round_pct = (\<lambda>t p. round_half_even (t * 100) p),
      round_div100 = (\<lambda>x. round_half_even x 100),
      exceeds_half = (\<lambda>a b. 2 * a > b)\<rparr>"

section \<open>Which keys a step writes\<close>

text \<open>
  \<open>only_writes S f\<close>: the step \<open>f\<close> leaves every key outside \<open>S\<close> as it is, and adds no
  key to a record that has the keys of \<open>S\<close>.
\<close>

definition only_writes :: "pystr set \<Rightarrow> (pydict \<Rightarrow> pydict) \<Rightarrow> bool" where
  "only_writes S f \<longleftrightarrow>
     (\<forall>d. (\<forall>k. k \<notin> S \<longrightarrow> f d k = d k) \<and> (S \<subseteq> dom d \<longrightarrow> dom (f d) = dom d))"

text \<open>The keys of the four rate buckets.\<close>

abbreviation rate_keys :: "pystr set" where
  "rate_keys \<equiv> {k_tax0, k_tax5, k_tax8, k_tax10}"

section \<open>Concrete inputs\<close>

text \<open>A scanned document: one page without a text layer, and OCR that returns nothing.\<close>

definition scanned_pdf :: source where
  "scanned_pdf =
     \<lparr>is_path = False, basename = [], pages = [Text None], ocr_text = [],
      hd_number = None, hd_taxcode = None, fallback = No_file\<rparr>"

text \<open>A document that cannot be opened.\<close>

definition unreadable_pdf :: source where
  "unreadable_pdf =
     \<lparr>is_path = False, basename = [], pages = [Raises], ocr_text = [],
      hd_number = None, hd_taxcode = None, fallback = No_file\<rparr>"

text \<open>A record at line 2153 with a pre-tax amount and a total, and no tax.\<close>

definition record_missing_tax :: pydict where
  "record_missing_tax =
     (init_data (lit ''a.pdf''))(k_pretax \<mapsto> lit ''1.000.000'', k_total \<mapsto> lit ''1.080.000'')"

text \<open>A record at line 2153 of an invoice of 6.250 with 8% tax, 500.\<close>

definition record_small_tax :: pydict where
  "record_small_tax =
     (init_data (lit ''a.pdf''))(k_pretax \<mapsto> lit ''6.250'', k_tax \<mapsto> lit ''500'',
       k_tax8 \<mapsto> lit ''500'', k_total \<mapsto> lit ''6.750'')"

text \<open>A record with a tax of a tenth of the pre-tax amount, and no bucket.\<close>

definition record_ten_percent :: pydict where
  "record_ten_percent =
     (init_data (lit ''a.pdf''))(k_pretax \<mapsto> lit ''1.000.000'', k_tax \<mapsto> lit ''100.000'')"




text \<open>
  A scanned invoice whose OCR text is the two lines \<open>Tien thue GTGT: 80.000\<close> and
  \<open>Tong cong thanh toan: 1.080.000\<close>, with their diacritics. Here
  \<open>extract_ocr_invoice_fields\<close> finds the tax (line 513) and the total (line 539); there
  is no pre-tax amount, and none of the four branches of lines 586 to 629 applies: the
  first two need a missing total, the third the word \<open>petrolimex\<close>, the fourth a missing
  tax.
\<close>

definition ocr_tax_total_text :: pystr where
  "ocr_tax_total_text =
     [84, 105, 7873, 110, 32, 116, 104, 117, 7871, 32, 71, 84, 71, 84, 58, 32, 56, 48, 46, 48,
      48, 48, 10, 84, 7893, 110, 103, 32, 99, 7897, 110, 103, 32, 116, 104, 97, 110, 104, 32,
      116, 111, 225, 110, 58, 32, 49, 46, 48, 56, 48, 46, 48, 48, 48]"

definition ocr_tax_total_engine :: engine where
  "ocr_tax_total_engine =
     plain_engine
       \<lparr>py_lower := (\<lambda>s. if s = ocr_tax_total_text
                          then [116, 105, 7873, 110, 32, 116, 104, 117, 7871, 32, 103, 116, 103,
                                116, 58, 32, 56, 48, 46, 48, 48, 48, 10, 116, 7893, 110, 103, 32,
                                99, 7897, 110, 103, 32, 116, 104, 97, 110, 104, 32, 116, 111,
                                225, 110, 58, 32, 49, 46, 48, 56, 48, 46, 48, 48, 48]
                          else s),
        ocr_fields := (\<lambda>t f. if t = ocr_tax_total_text
                             then Some [(F_tax, lit ''80.000''), (F_total, lit ''1.080.000'')]
                             else Some [])\<rparr>"

definition ocr_tax_total_scan :: source where
  "ocr_tax_total_scan =
     \<lparr>is_path = False, basename = [], pages = [Text None], ocr_text = ocr_tax_total_text,
      hd_number = None, hd_taxcode = None, fallback = No_file\<rparr>"

text \<open>A document given as a stream, with one page of text and nothing else.\<close>

definition one_page_pdf :: "pystr \<Rightarrow> source" where
  "one_page_pdf t =
     \<lparr>is_path = False, basename = [], pages = [Text (Some t)], ocr_text = [],
      hd_number = None, hd_taxcode = None, fallback = No_file\<rparr>"



text \<open>The same with a tax of 80.000: a pre-tax amount and a tax, and no total.\<close>

definition pretax_tax_text :: pystr where
  "pretax_tax_text =
     [67, 7897, 110, 103, 32, 116, 105, 7873, 110, 32, 104, 224, 110, 103, 32, 104, 243, 97,
      44, 32, 100, 7883, 99, 104, 32, 118, 7909, 58, 32, 49, 46, 48, 48, 48, 46, 48, 48, 48,
      32, 56, 48, 46, 48, 48, 48]"

definition pretax_tax_engine :: engine where
  "pretax_tax_engine =
     plain_engine
       \<lparr>fields_after_rate :=
          (\<lambda>t f d. ([(F_pretax, lit ''1.000.000''), (F_tax, lit ''80.000'')], False))\<rparr>"

text \<open>
  The line \<open>Thue GTGT: 80.000 Tong cong tien thanh toan: 1.080.000\<close> with its
  diacritics, and an engine in which the tax is assigned at line 1900 and the total at
  line 2114: a tax and a total, and no pre-tax amount.
\<close>

definition tax_total_text :: pystr where
  "tax_total_text =
     [84, 104, 117, 7871, 32, 71, 84, 71, 84, 58, 32, 56, 48, 46, 48, 48, 48, 32, 84, 7893, 110,
      103, 32, 99, 7897, 110, 103, 32, 116, 105, 7873, 110, 32, 116, 104, 97, 110, 104, 32, 116,
      111, 225, 110, 58, 32, 49, 46, 48, 56, 48, 46, 48, 48, 48]"

definition tax_total_engine :: engine where
  "tax_total_engine =
     plain_engine
       \<lparr>fields_before_rate := (\<lambda>t f d. ([(F_tax, lit ''80.000'')], False)),
        fields_after_rate := (\<lambda>t f d. ([(F_total, lit ''1.080.000'')], False))\<rparr>"

section \<open>Facts about digits, grouping and parsing\<close>

lemmas parse_eval_defs =
  lit_def cut_fraction_def py_strip_def is_space_def remove_char_def py_int_def is_digit_def
  search_sep_digits_end_def sep_digits_tail_def is_sep_def rfind_def

lemma nat_digits_all: "list_all is_digit (nat_digits n)"
proof (induction n rule: nat_digits.induct)
  case (1 n)
  show ?case
  proof (cases "n < 10")
    case True
    then show ?thesis by (subst nat_digits.simps) (simp add: is_digit_def)
  next
    case False
    have "n mod 10 < 10" by simp
    then have "is_digit (48 + n mod 10)" unfolding is_digit_def by linarith
    with False 1 show ?thesis by (subst nat_digits.simps) simp
  qed
qed

lemma nat_digits_nonempty: "nat_digits n \<noteq> []"
  by (subst nat_digits.simps) simp

lemma int_digits_run:
  "list_all is_digit ds \<Longrightarrow> ds \<noteq> [] \<Longrightarrow>
   int_digits acc p (ds @ rest) =
     int_digits (foldl (\<lambda>a c. 10 * a + (int c - 48)) acc ds) True rest"
proof (induction ds arbitrary: acc p)
  case Nil
  then show ?case by simp
next
  case (Cons c cs)
  show ?case
  proof (cases "cs = []")
    case True
    with Cons.prems show ?thesis by simp
  next
    case False
    from Cons.prems have tl: "list_all is_digit cs" by simp
    have "int_digits acc p ((c # cs) @ rest) =
          int_digits (10 * acc + (int c - 48)) True (cs @ rest)"
      using Cons.prems by simp
    also have "\<dots> = int_digits (foldl (\<lambda>a c. 10 * a + (int c - 48)) (10 * acc + (int c - 48)) cs) True rest"
      by (rule Cons.IH [OF tl False])
    finally show ?thesis by simp
  qed
qed

lemma foldl_nat_digits:
  "foldl (\<lambda>a c. 10 * a + (int c - 48)) 0 (nat_digits n) = int n"
proof (induction n rule: nat_digits.induct)
  case (1 n)
  show ?case
  proof (cases "n < 10")
    case True
    then show ?thesis by (subst nat_digits.simps) simp
  next
    case False
    with 1 have "foldl (\<lambda>a c. 10 * a + (int c - 48)) 0 (nat_digits (n div 10)) = int (n div 10)"
      by simp
    with False show ?thesis by (subst nat_digits.simps) (simp add: zdiv_int zmod_int)
  qed
qed

lemma int_digits_nat_digits: "int_digits 0 False (nat_digits n) = Some (int n)"
  using int_digits_run [OF nat_digits_all nat_digits_nonempty, of 0 False n "[]"]
  by (simp add: foldl_nat_digits)

lemma digit_not_space: "is_digit c \<Longrightarrow> \<not> is_space c"
  by (auto simp: is_digit_def is_space_def)

lemma digit_not_sep: "is_digit c \<Longrightarrow> \<not> is_sep c"
  by (auto simp: is_digit_def is_sep_def)

lemma py_strip_id: "\<forall>c\<in>set s. \<not> is_space c \<Longrightarrow> py_strip s = s"
proof -
  assume a: "\<forall>c\<in>set s. \<not> is_space c"
  have d: "dropWhile is_space t = t" if "\<forall>c\<in>set t. \<not> is_space c" for t
    using that by (cases t) simp_all
  from a have "dropWhile is_space s = s" by (rule d)
  moreover from a have "dropWhile is_space (rev s) = rev s" by (intro d) simp
  ultimately show ?thesis by (simp add: py_strip_def)
qed

lemma set_group_rev: "set (group_rev sep rs) \<subseteq> insert sep (set rs)"
  by (induction sep rs rule: group_rev.induct) auto

lemma filter_group_rev:
  "sep \<notin> set rs \<Longrightarrow> filter (\<lambda>x. x \<noteq> sep) (group_rev sep rs) = rs"
  by (induction sep rs rule: group_rev.induct) auto

lemma group_rev_third:
  "list_all is_digit rs \<Longrightarrow> 2 < length (group_rev sep rs) \<Longrightarrow> is_digit (group_rev sep rs ! 2)"
  by (cases "(sep, rs)" rule: group_rev.cases) simp_all

lemma group_rev_hd: "rs \<noteq> [] \<Longrightarrow> hd (group_rev sep rs) = hd rs"
  by (cases "(sep, rs)" rule: group_rev.cases) simp_all


lemma set_group_thousands:
  "set (group_thousands sep ds) \<subseteq> insert sep (set ds)"
  using set_group_rev [of sep "rev ds"] by (simp add: group_thousands_def)

lemma group_thousands_nonempty: "ds \<noteq> [] \<Longrightarrow> group_thousands sep ds \<noteq> []"
  by (cases "(sep, rev ds)" rule: group_rev.cases) (simp_all add: group_thousands_def)

lemma cut_fraction_grouped:
  assumes ds: "list_all is_digit ds" and ne: "ds \<noteq> []" and sep: "is_sep sep"
  shows "cut_fraction (group_thousands sep ds) = group_thousands sep ds"
proof -
  let ?s = "group_thousands sep ds"
  have chars: "is_digit c \<or> c = sep" if "c \<in> set ?s" for c
    using that set_group_thousands [of sep ds] ds by (auto simp: list_all_iff)
  have "\<forall>c\<in>set ?s. \<not> is_space c"
  proof (rule ballI)
    fix c assume "c \<in> set ?s"
    then have "is_digit c \<or> c = sep" by (rule chars)
    with sep show "\<not> is_space c" by (auto simp: is_sep_def is_space_def is_digit_def)
  qed
  then have strip: "py_strip ?s = ?s" by (rule py_strip_id)
  have both: "(46 \<in> set ?s \<and> 44 \<in> set ?s) = False"
    using chars [of 46] chars [of 44] sep by (auto simp: is_sep_def is_digit_def)
  have rds: "list_all is_digit (rev ds)" using ds by (simp add: list_all_iff)
  have rev_s: "rev ?s = group_rev sep (rev ds)" by (simp add: group_thousands_def)
  have tail: "\<not> sep_digits_tail 2 ?s"
    using group_rev_third [OF rds, of sep] digit_not_sep
    by (auto simp: sep_digits_tail_def rev_s Let_def)
  have "last ?s = hd (rev ds)"
    using group_rev_hd [of "rev ds" sep] ne group_thousands_nonempty [OF ne, of sep]
    by (simp add: group_thousands_def last_rev)
  also have "\<dots> = last ds" using ne by (simp add: hd_rev)
  finally have "is_digit (last ?s)" using ds ne by (simp add: list_all_iff)
  then have "last ?s \<noteq> 10" by (auto simp: is_digit_def)
  with tail have "search_sep_digits_end 2 ?s = False" by (simp add: search_sep_digits_end_def)
  then show ?thesis by (simp only: cut_fraction_def Let_def strip both if_False simp_thms)
qed

lemma filter_id: "\<forall>x\<in>set xs. P x \<Longrightarrow> filter P xs = xs"
  by (induction xs) simp_all

lemma remove_seps_grouped:
  assumes ds: "list_all is_digit ds" and sep: "is_sep sep"
  shows "remove_char 44 (remove_char 46 (group_thousands sep ds)) = ds"
    and "remove_char 46 (remove_char 44 (group_thousands sep ds)) = ds"
proof -
  have d44: "44 \<notin> set (rev ds)" and d46: "46 \<notin> set (rev ds)"
    using ds by (auto simp: list_all_iff is_digit_def)
  have own: "remove_char sep (group_thousands sep ds) = ds"
    using filter_group_rev [of sep "rev ds"] d44 d46 sep
    by (auto simp: remove_char_def group_thousands_def is_sep_def rev_filter [symmetric])
  have other: "remove_char c (group_thousands sep ds) = group_thousands sep ds"
    if "is_sep c" "c \<noteq> sep" for c
    unfolding remove_char_def
  proof (rule filter_id, rule ballI)
    fix x assume "x \<in> set (group_thousands sep ds)"
    then have "x = sep \<or> is_digit x"
      using set_group_thousands [of sep ds] ds by (auto simp: list_all_iff)
    with that show "x \<noteq> c" by (auto simp: is_sep_def is_digit_def)
  qed
  have plain: "remove_char c ds = ds" if "is_sep c" for c
    unfolding remove_char_def
    using ds that by (intro filter_id) (auto simp: list_all_iff is_sep_def is_digit_def)
  show "remove_char 44 (remove_char 46 (group_thousands sep ds)) = ds"
    using sep own other [of 46] other [of 44] plain [of 44] plain [of 46]
    by (auto simp: is_sep_def)
  show "remove_char 46 (remove_char 44 (group_thousands sep ds)) = ds"
    using sep own other [of 46] other [of 44] plain [of 44] plain [of 46]
    by (auto simp: is_sep_def)
qed

lemma py_int_nat_digits: "py_int (nat_digits n) = Some (int n)"
proof -
  have all: "list_all is_digit (nat_digits n)" by (rule nat_digits_all)
  then have "\<forall>c\<in>set (nat_digits n). \<not> is_space c"
    by (auto simp: list_all_iff dest: digit_not_space)
  then have strip: "py_strip (nat_digits n) = nat_digits n" by (rule py_strip_id)
  obtain c cs where cs: "nat_digits n = c # cs"
    using nat_digits_nonempty [of n] by (cases "nat_digits n") auto
  with all have "is_digit c" by simp
  then have "c \<noteq> 45" "c \<noteq> 43" by (auto simp: is_digit_def)
  moreover have s2: "py_strip (c # cs) = c # cs" using strip unfolding cs .
  moreover have v: "int_digits 0 False (c # cs) = Some (int n)"
    using int_digits_nat_digits [of n] unfolding cs .
  ultimately show ?thesis
    by (simp add: py_int_def cs del: int_digits.simps)
qed

lemma parse_money_format_money_nonneg:
  assumes "0 \<le> n"
  shows "parse_money (format_money n) = Some n"
proof -
  let ?ds = "nat_digits (nat n)"
  have fm: "format_money n = group_thousands 44 ?ds"
    using assms by (simp add: format_money_def format_grouped_def)
  have ne: "group_thousands 44 ?ds \<noteq> []"
    by (rule group_thousands_nonempty [OF nat_digits_nonempty])
  have cut: "cut_fraction (group_thousands 44 ?ds) = group_thousands 44 ?ds"
    by (rule cut_fraction_grouped [OF nat_digits_all nat_digits_nonempty]) (simp add: is_sep_def)
  have rm: "remove_char 44 (remove_char 46 (group_thousands 44 ?ds)) = ?ds"
    by (rule remove_seps_grouped(1) [OF nat_digits_all]) (simp add: is_sep_def)
  show ?thesis
    using assms by (simp add: parse_money_def fm ne cut rm py_int_nat_digits)
qed

subsection \<open>The nested parser and formatter\<close>

lemma inner_parse_money_empty: "inner_parse_money [] = 0"
  by (simp add: inner_parse_money_def)

lemma cut_fraction_digits:
  assumes ds: "list_all is_digit ds" and ne: "ds \<noteq> []"
  shows "cut_fraction ds = ds"
proof -
  have "\<forall>c\<in>set ds. \<not> is_space c"
    using ds by (auto simp: list_all_iff dest: digit_not_space)
  then have strip: "py_strip ds = ds" by (rule py_strip_id)
  have both: "(46 \<in> set ds \<and> 44 \<in> set ds) = False"
    using ds by (auto simp: list_all_iff is_digit_def)
  have "is_digit (rev ds ! 2)" if "2 < length ds"
    using that ds by (simp add: list_all_iff rev_nth)
  then have tail: "\<not> sep_digits_tail 2 ds"
    using digit_not_sep by (auto simp: sep_digits_tail_def Let_def)
  have "is_digit (last ds)" using ds ne by (simp add: list_all_iff)
  then have "last ds \<noteq> 10" by (auto simp: is_digit_def)
  with tail have "search_sep_digits_end 2 ds = False" by (simp add: search_sep_digits_end_def)
  then show ?thesis by (simp only: cut_fraction_def Let_def strip both if_False simp_thms)
qed

lemma remove_char_digits: "list_all is_digit ds \<Longrightarrow> is_sep c \<Longrightarrow> remove_char c ds = ds"
  unfolding remove_char_def
  by (rule filter_id) (auto simp: list_all_iff is_sep_def is_digit_def)

lemma inner_parse_money_int_nonneg: "0 \<le> n \<Longrightarrow> inner_parse_money_int n = n"
proof -
  assume n: "0 \<le> n"
  let ?ds = "nat_digits (nat n)"
  have "inner_parse_money ?ds = n"
    using n
    by (simp add: inner_parse_money_def nat_digits_nonempty
        cut_fraction_digits [OF nat_digits_all nat_digits_nonempty]
        remove_char_digits [OF nat_digits_all] is_sep_def py_int_nat_digits)
  with n show ?thesis by (simp add: inner_parse_money_int_def py_str_int_def)
qed

lemma to_float_small: "\<bar>n\<bar> < 2 ^ 53 \<Longrightarrow> to_float n = Some n"
  by (simp add: to_float_def)

lemma inner_format_money_small:
  "0 \<le> n \<Longrightarrow> n < 2 ^ 53 \<Longrightarrow>
   inner_format_money n = group_thousands 46 (nat_digits (nat n))"
  by (simp add: inner_format_money_def inner_parse_money_int_nonneg to_float_small
      format_grouped_def)

lemma inner_parse_format:
  assumes "0 \<le> n" "n < 2 ^ 53"
  shows "inner_parse_money (inner_format_money n) = n"
proof -
  let ?ds = "nat_digits (nat n)"
  have ne: "group_thousands 46 ?ds \<noteq> []"
    by (rule group_thousands_nonempty [OF nat_digits_nonempty])
  have cut: "cut_fraction (group_thousands 46 ?ds) = group_thousands 46 ?ds"
    by (rule cut_fraction_grouped [OF nat_digits_all nat_digits_nonempty]) (simp add: is_sep_def)
  have rm: "remove_char 46 (remove_char 44 (group_thousands 46 ?ds)) = ?ds"
    by (rule remove_seps_grouped(2) [OF nat_digits_all]) (simp add: is_sep_def)
  show ?thesis
    using assms
    by (simp add: inner_format_money_small inner_parse_money_def ne cut rm py_int_nat_digits)
qed

lemma py_str_int_nonempty: "py_str_int n \<noteq> []"
  by (simp add: py_str_int_def nat_digits_nonempty)

lemma format_grouped_nonempty: "format_grouped sep n \<noteq> []"
  by (simp add: format_grouped_def group_thousands_nonempty nat_digits_nonempty)

lemma inner_format_money_nonempty: "inner_format_money n \<noteq> []"
  by (simp add: inner_format_money_def py_str_int_nonempty format_grouped_nonempty
      split: option.split)

lemma split_ws_no_space:
  "\<forall>c\<in>set s. \<not> is_space c \<Longrightarrow> cur \<noteq> [] \<or> s \<noteq> [] \<Longrightarrow>
   split_ws cur s = [rev cur @ s]"
proof (induction s arbitrary: cur)
  case Nil
  then show ?case by simp
next
  case (Cons c cs)
  from Cons.prems have c: "\<not> is_space c" and cs: "\<forall>x\<in>set cs. \<not> is_space x" by simp_all
  have "split_ws cur (c # cs) = split_ws (c # cur) cs" using c by simp
  also have "\<dots> = [rev (c # cur) @ cs]" by (rule Cons.IH [OF cs]) simp
  finally show ?case by simp
qed

lemma clean_string_value_id:
  assumes "\<forall>c\<in>set s. \<not> is_space c \<and> c \<noteq> 13 \<and> c \<noteq> 173"
  shows "clean_string_value s = s"
proof -
  have f: "remove_char 173 (remove_char 13 s) = s"
    unfolding remove_char_def using assms by (simp add: filter_id)
  have tab: "is_space 9" by (simp add: is_space_def)
  have "c \<noteq> 9" if "c \<in> set s" for c
  proof
    assume "c = 9"
    with that assms have "\<not> is_space 9" by blast
    with tab show False by simp
  qed
  then have m: "map (\<lambda>c. if c = 9 then 32 else c) s = s"
    by (intro map_idI) simp
  show ?thesis
  proof (cases "s = []")
    case True
    then show ?thesis by (simp add: clean_string_value_def remove_char_def py_split_def)
  next
    case False
    then have "py_split s = [s]"
      using split_ws_no_space [of s "[]"] assms by (simp add: py_split_def)
    then show ?thesis by (simp add: clean_string_value_def f m)
  qed
qed

lemma clean_string_value_empty: "clean_string_value [] = []"
  by (simp add: clean_string_value_def remove_char_def py_split_def)

lemma clean_inner_format_money:
  assumes "0 \<le> n" "n < 2 ^ 53"
  shows "clean_string_value (inner_format_money n) = inner_format_money n"
proof (rule clean_string_value_id, rule ballI)
  fix c assume "c \<in> set (inner_format_money n)"
  then have "c \<in> set (group_thousands 46 (nat_digits (nat n)))"
    using assms by (simp add: inner_format_money_small)
  then have "c = 46 \<or> is_digit c"
    using set_group_thousands [of 46 "nat_digits (nat n)"] nat_digits_all [of "nat n"]
    by (auto simp: list_all_iff)
  then show "\<not> is_space c \<and> c \<noteq> 13 \<and> c \<noteq> 173"
    by (auto simp: is_space_def is_digit_def)
qed

section \<open>The keys written by each step of extract_invoice_data\<close>

lemma only_writesI:
  "(\<And>d k. k \<notin> S \<Longrightarrow> f d k = d k) \<Longrightarrow> (\<And>d. S \<subseteq> dom d \<Longrightarrow> dom (f d) = dom d) \<Longrightarrow>
   only_writes S f"
  by (simp add: only_writes_def)

lemma only_writes_frame: "only_writes S f \<Longrightarrow> k \<notin> S \<Longrightarrow> f d k = d k"
  by (simp add: only_writes_def)

lemma only_writes_dget: "only_writes S f \<Longrightarrow> k \<notin> S \<Longrightarrow> dget (f d) k = dget d k"
  by (simp add: only_writes_def dget_def)

lemma only_writes_dom: "only_writes S f \<Longrightarrow> S \<subseteq> dom d \<Longrightarrow> dom (f d) = dom d"
  by (simp add: only_writes_def)

lemma only_writes_mono: "only_writes S f \<Longrightarrow> S \<subseteq> T \<Longrightarrow> only_writes T f"
  unfolding only_writes_def by (meson subset_iff order_trans)

lemma only_writes_comp:
  "only_writes S f \<Longrightarrow> only_writes S g \<Longrightarrow> only_writes S (\<lambda>d. g (f d))"
  unfolding only_writes_def by simp

lemma only_writes_foldl:
  "(\<And>x. only_writes S (\<lambda>d. f d x)) \<Longrightarrow> only_writes S (\<lambda>d. foldl f d xs)"
proof (induction xs rule: rev_induct)
  case Nil
  then show ?case by (simp add: only_writes_def)
next
  case (snoc x xs)
  have "only_writes S (\<lambda>d. f (foldl f d xs) x)"
    using only_writes_comp [OF snoc.IH [OF snoc.prems] snoc.prems [of x]] .
  then show ?case by simp
qed

lemma only_writes_foldl_set:
  "(\<And>x. x \<in> set xs \<Longrightarrow> only_writes S (\<lambda>d. f d x)) \<Longrightarrow> only_writes S (\<lambda>d. foldl f d xs)"
proof (induction xs rule: rev_induct)
  case Nil
  then show ?case by (simp add: only_writes_def)
next
  case (snoc x xs)
  have a: "only_writes S (\<lambda>d. foldl f d xs)" by (rule snoc.IH) (simp add: snoc.prems)
  have b: "only_writes S (\<lambda>d. f d x)" by (rule snoc.prems) simp
  have "only_writes S (\<lambda>d. f (foldl f d xs) x)"
    using only_writes_comp [OF a b] .
  then show ?case by simp
qed

lemma only_writes_upd:
  "k \<in> S \<Longrightarrow> only_writes S (\<lambda>d. if P d then d(k \<mapsto> v d) else d)"
  by (rule only_writesI) auto

lemma rate_text_key: "thue_prefix @ rate_text r \<in> {k_tax0, k_tax5, k_tax8, k_tax10}"
  by (cases r) (simp_all add: thue_prefix_def key_defs)

lemma rate_literal_key:
  "other \<in> set [lit ''10'', lit ''8'', lit ''5'', lit ''0''] \<Longrightarrow>
   thue_prefix @ other @ [37] \<in> {k_tax0, k_tax5, k_tax8, k_tax10}"
  by (auto simp: thue_prefix_def key_defs lit_def)

lemma nat_digits_small: "n < 10 \<Longrightarrow> nat_digits n = [48 + n]"
  by (subst nat_digits.simps) simp

lemma rate_int_key:
  "r \<in> {0, 5, 8, 10} \<Longrightarrow>
   thue_prefix @ py_str_int r @ [37] \<in> {k_tax0, k_tax5, k_tax8, k_tax10}"
proof -
  have "nat_digits 10 = [49, 48]"
    by (subst nat_digits.simps) (simp add: nat_digits_small)
  then show "r \<in> {0, 5, 8, 10} \<Longrightarrow> ?thesis"
    by (auto simp: thue_prefix_def key_defs py_str_int_def nat_digits_small)
qed

lemma ow_validate_money: "only_writes {k_pretax, k_tax, k_total} validate_money"
  unfolding validate_money_def
  by (rule only_writes_foldl_set) (auto intro!: only_writes_upd)

lemma ow_calc_total: "only_writes {k_total} calc_total"
  unfolding calc_total_def by (rule only_writesI) auto

lemma ow_reverse_case: "only_writes {k_pretax} reverse_case"
  unfolding reverse_case_def by (rule only_writesI) (auto simp: Let_def)

lemma ow_garbage_total_fix: "only_writes {k_total, k_pretax} (garbage_total_fix t)"
  unfolding garbage_total_fix_def
  by (rule only_writesI) (auto simp: Let_def split: option.splits)

lemma ow_items_fallback: "only_writes {k_pretax} (items_fallback xs)"
  unfolding items_fallback_def by (rule only_writesI) (auto simp: Let_def)

lemma ow_rerun_total: "only_writes {k_total} rerun_total"
  unfolding rerun_total_def by (rule only_writesI) (auto simp: Let_def)


lemma ow_summary_line:
  "only_writes rate_keys (\<lambda>d. fst (summary_line (d, n) row))"
proof (rule only_writesI)
  obtain r n1 n2 n3 where row: "row = (r, n1, n2, n3)" by (cases row) auto
  have key: "thue_prefix @ rate_text r \<in> rate_keys" by (rule rate_text_key)
  show "fst (summary_line (d, n) row) k = d k" if "k \<notin> rate_keys" for d :: pydict and k
    using that key by (auto simp: summary_line_def row Let_def)
  show "dom (fst (summary_line (d, n) row)) = dom d" if "rate_keys \<subseteq> dom d" for d :: pydict
    using that key by (auto simp: summary_line_def row Let_def)
qed

lemma fst_foldl_summary:
  "only_writes rate_keys (\<lambda>d. fst (foldl summary_line (d, n) rows))"
proof (induction rows rule: rev_induct)
  case Nil
  show ?case by (simp add: only_writes_def)
next
  case (snoc row rows)
  show ?case
  proof (rule only_writesI)
    fix d :: pydict and k assume k: "k \<notin> rate_keys"
    let ?st = "foldl summary_line (d, n) rows"
    have ow: "only_writes rate_keys (\<lambda>d. fst (summary_line (d, snd ?st) row))"
      by (rule ow_summary_line)
    have "fst (summary_line (fst ?st, snd ?st) row) k = fst ?st k"
      using only_writes_frame [OF ow k] .
    then have "fst (summary_line ?st row) k = fst ?st k" by simp
    also have "\<dots> = d k" using only_writes_frame [OF snoc.IH k] .
    finally show "fst (foldl summary_line (d, n) (rows @ [row])) k = d k" by simp
  next
    fix d :: pydict assume sub: "rate_keys \<subseteq> dom d"
    let ?st = "foldl summary_line (d, n) rows"
    have d1: "dom (fst ?st) = dom d" using only_writes_dom [OF snoc.IH sub] .
    have ow: "only_writes rate_keys (\<lambda>d. fst (summary_line (d, snd ?st) row))"
      by (rule ow_summary_line)
    have "rate_keys \<subseteq> dom (fst ?st)" using sub d1 by simp
    from only_writes_dom [OF ow this]
    have "dom (fst (summary_line (fst ?st, snd ?st) row)) = dom (fst ?st)" .
    then have "dom (fst (summary_line ?st row)) = dom (fst ?st)" by simp
    with d1 show "dom (fst (foldl summary_line (d, n) (rows @ [row]))) = dom d" by simp
  qed
qed

lemma ow_summary_tables: "only_writes (insert k_tax rate_keys) (summary_tables eng t)"
proof (rule only_writesI)
  fix d :: pydict and k assume k: "k \<notin> insert k_tax rate_keys"
  then have "k \<notin> rate_keys" by simp
  from only_writes_frame [OF fst_foldl_summary this] k
  show "summary_tables eng t d k = d k"
    by (auto simp: summary_tables_def Let_def)
next
  fix d :: pydict assume sub: "insert k_tax rate_keys \<subseteq> dom d"
  then have "rate_keys \<subseteq> dom d" by simp
  from only_writes_dom [OF fst_foldl_summary this]
  have "dom (fst (foldl summary_line (d, 0) (summary_lines eng t))) = dom d" .
  with sub show "dom (summary_tables eng t d) = dom d"
    by (auto simp: summary_tables_def Let_def)
qed

lemma ow_grand_total_line:
  "only_writes {k_tax, k_pretax, k_total} (grand_total_line eng t)"
  unfolding grand_total_line_def
  by (rule only_writesI) (auto simp: Let_def split: option.splits)

lemma ow_lookup_code_fix: "only_writes {k_lookup} (lookup_code_fix eng t)"
  unfolding lookup_code_fix_def
  by (rule only_writesI) (auto simp: Let_def split: option.splits)

lemma ow_fill_other_rate:
  "only_writes (rate_keys \<union> {k_other, k_tax, k_total}) (fill_other_rate eng)"
proof (rule only_writesI)
  fix d :: pydict and k assume k: "k \<notin> rate_keys \<union> {k_other, k_tax, k_total}"
  show "fill_other_rate eng d k = d k"
  proof (cases "dget d k_other \<in> set [lit ''10'', lit ''8'', lit ''5'', lit ''0'']")
    case True
    from rate_literal_key [OF True] k have "k \<noteq> thue_prefix @ dget d k_other @ [37]" by auto
    with k True show ?thesis
      by (auto simp: fill_other_rate_def Let_def split: option.splits)
  next
    case False
    then show ?thesis by (simp add: fill_other_rate_def Let_def)
  qed
next
  fix d :: pydict assume sub: "rate_keys \<union> {k_other, k_tax, k_total} \<subseteq> dom d"
  show "dom (fill_other_rate eng d) = dom d"
  proof (cases "dget d k_other \<in> set [lit ''10'', lit ''8'', lit ''5'', lit ''0'']")
    case True
    from rate_literal_key [OF True] sub have "thue_prefix @ dget d k_other @ [37] \<in> dom d" by auto
    with sub True show ?thesis
      by (auto simp: fill_other_rate_def Let_def insert_absorb split: option.splits)
  next
    case False
    then show ?thesis by (simp add: fill_other_rate_def Let_def)
  qed
qed

lemma ow_fill_bucket: "only_writes rate_keys (\<lambda>d. fill_bucket eng tm d r)" if "r \<in> {0, 5, 8, 10}"
proof (rule only_writesI)
  have key: "thue_prefix @ py_str_int r @ [37] \<in> rate_keys" using that by (rule rate_int_key)
  show "fill_bucket eng tm d r k = d k" if "k \<notin> rate_keys" for d :: pydict and k
    using that key by (auto simp: fill_bucket_def Let_def)
  show "dom (fill_bucket eng tm d r) = dom d" if "rate_keys \<subseteq> dom d" for d :: pydict
    using that key by (auto simp: fill_bucket_def Let_def)
qed

lemma ow_fill_buckets:
  "only_writes rate_keys (\<lambda>d. foldl (fill_bucket eng tm) d [0, 5, 8, 10])"
  by (rule only_writes_foldl_set) (auto intro: ow_fill_bucket)

lemma ow_aggregate_item_tax:
  "only_writes (insert k_tax rate_keys) (aggregate_item_tax eng xs)"
proof (rule only_writesI)
  fix d :: pydict and k assume k: "k \<notin> insert k_tax rate_keys"
  then have "k \<notin> rate_keys" by simp
  from only_writes_frame [OF ow_fill_buckets this] k
  show "aggregate_item_tax eng xs d k = d k"
    by (simp add: aggregate_item_tax_def Let_def)
next
  fix d :: pydict assume sub: "insert k_tax rate_keys \<subseteq> dom d"
  then have "rate_keys \<subseteq> dom d" by simp
  from only_writes_dom [OF ow_fill_buckets this] sub
  show "dom (aggregate_item_tax eng xs d) = dom d"
    by (auto simp: aggregate_item_tax_def Let_def)
qed

lemma ow_sanity_check_tax:
  "only_writes (rate_keys \<union> {k_other, k_tax}) sanity_check_tax"
proof -
  let ?S = "rate_keys \<union> {k_other, k_tax}"
  have clear: "only_writes ?S
      (\<lambda>d. foldl (\<lambda>d c. if inner_parse_money (dget d c) = t then d(c \<mapsto> []) else d)
              (d(k_tax \<mapsto> [])) [k_tax0, k_tax5, k_tax8, k_tax10, k_other])" for t
  proof -
    have a: "only_writes ?S (\<lambda>d. if True then d(k_tax \<mapsto> []) else d)"
      by (rule only_writes_upd) simp
    have b: "only_writes ?S
        (\<lambda>d. foldl (\<lambda>d c. if inner_parse_money (dget d c) = t then d(c \<mapsto> []) else d) d
                [k_tax0, k_tax5, k_tax8, k_tax10, k_other])"
      by (rule only_writes_foldl_set) (auto intro!: only_writes_upd)
    from only_writes_comp [OF a b] show ?thesis by simp
  qed
  show ?thesis
  proof (rule only_writesI)
    fix d :: pydict and k assume "k \<notin> ?S"
    from only_writes_frame [OF clear this]
    show "sanity_check_tax d k = d k" by (simp add: sanity_check_tax_def Let_def)
  next
    fix d :: pydict assume "?S \<subseteq> dom d"
    from only_writes_dom [OF clear this]
    show "dom (sanity_check_tax d) = dom d" by (simp add: sanity_check_tax_def Let_def)
  qed
qed

lemma ow_recalc_total_tax: "only_writes {k_tax} recalc_total_tax"
  unfolding recalc_total_tax_def by (rule only_writesI) (auto simp: Let_def)

lemma ow_final_rate_pass: "only_writes rate_keys (final_rate_pass eng)"
proof (rule only_writesI)
  fix d :: pydict and k assume k: "k \<notin> rate_keys"
  show "final_rate_pass eng d k = d k"
    using k rate_int_key [of "round_pct eng (inner_parse_money (dget d k_tax))
        (inner_parse_money (dget d k_pretax))"]
    by (auto simp: final_rate_pass_def Let_def)
next
  fix d :: pydict assume sub: "rate_keys \<subseteq> dom d"
  show "dom (final_rate_pass eng d) = dom d"
    using sub rate_int_key [of "round_pct eng (inner_parse_money (dget d k_tax))
        (inner_parse_money (dget d k_pretax))"]
    by (auto simp: final_rate_pass_def Let_def)
qed

lemma ow_other_cleanup: "only_writes {k_other} other_cleanup"
  unfolding other_cleanup_def by (rule only_writesI) (auto simp: Let_def)

lemma ow_money_cleanup: "only_writes (set money_keys) money_cleanup"
  unfolding money_cleanup_def
  by (rule only_writes_foldl_set, rule only_writesI) (auto simp: Let_def)

lemma ow_seller_cleanup: "only_writes {k_seller} (seller_cleanup eng t)"
  unfolding seller_cleanup_def by (rule only_writesI) (auto simp: Let_def)

lemma dom_clean_all: "dom (clean_all d) = dom d"
  by (auto simp: clean_all_def dom_def)

lemma dget_clean_all: "dget (clean_all d) k = clean_string_value (dget d k)"
  by (simp add: clean_all_def dget_def clean_string_value_empty split: option.split)

section \<open>Key set and file name through extract_invoice_data\<close>

lemma dom_init_data: "dom (init_data f) = set all_keys"
  by (auto simp: init_data_def all_keys_def dom_map_of_conv_image_fst)

lemma init_data_file: "init_data f k_file = Some f"
  by (simp add: init_data_def)

lemma money_keys_sub: "set money_keys \<subseteq> set all_keys"
  by (simp add: money_keys_def all_keys_def)

lemma file_not_money: "k_file \<notin> set money_keys" "k_file \<noteq> k_seller" "k_file \<noteq> k_lookup"
  "k_file \<noteq> k_number" "k_file \<noteq> k_taxcode" "k_file \<noteq> k_category" "k_file \<noteq> k_total"
  by (simp_all add: money_keys_def key_defs)

lemma other_keys_mem:
  "k_seller \<in> set all_keys" "k_lookup \<in> set all_keys" "k_number \<in> set all_keys"
  "k_taxcode \<in> set all_keys" "k_category \<in> set all_keys" "k_total \<in> set all_keys"
  "k_file \<in> set all_keys"
  by (simp_all add: all_keys_def)

text \<open>The final passes.\<close>

lemma ow_before_clean:
  "only_writes (set money_keys) (\<lambda>d. final_rate_pass eng (recalc_total_tax d))"
proof -
  have a: "only_writes (set money_keys) recalc_total_tax"
    by (rule only_writes_mono [OF ow_recalc_total_tax]) (simp add: money_keys_def)
  have b: "only_writes (set money_keys) (final_rate_pass eng)"
    by (rule only_writes_mono [OF ow_final_rate_pass]) (simp add: money_keys_def)
  show ?thesis by (rule only_writes_comp [OF a b])
qed

lemma ow_after_clean:
  "only_writes (insert k_seller (set money_keys))
     (\<lambda>d. seller_cleanup eng t (money_cleanup (other_cleanup d)))"
proof -
  let ?S = "insert k_seller (set money_keys)"
  have a: "only_writes ?S other_cleanup"
    by (rule only_writes_mono [OF ow_other_cleanup]) (simp add: money_keys_def)
  have b: "only_writes ?S money_cleanup"
    by (rule only_writes_mono [OF ow_money_cleanup]) auto
  have c: "only_writes ?S (seller_cleanup eng t)"
    by (rule only_writes_mono [OF ow_seller_cleanup]) simp
  have ab: "only_writes ?S (\<lambda>d. money_cleanup (other_cleanup d))"
    by (rule only_writes_comp [OF a b])
  show ?thesis by (rule only_writes_comp [OF ab c])
qed

lemma finish_frame:
  assumes "k \<notin> insert k_seller (set money_keys)"
  shows "finish eng t d k = map_option clean_string_value (d k)"
proof -
  from assms have k: "k \<notin> set money_keys" by simp
  have "finish eng t d k = clean_all (final_rate_pass eng (recalc_total_tax d)) k"
    unfolding finish_def using only_writes_frame [OF ow_after_clean assms] .
  also have "\<dots> = map_option clean_string_value (final_rate_pass eng (recalc_total_tax d) k)"
    by (simp add: clean_all_def)
  also have "final_rate_pass eng (recalc_total_tax d) k = d k"
    using only_writes_frame [OF ow_before_clean k] .
  finally show ?thesis .
qed

lemma finish_dom:
  assumes "dom d = set all_keys"
  shows "dom (finish eng t d) = set all_keys"
proof -
  let ?d1 = "final_rate_pass eng (recalc_total_tax d)"
  have "set money_keys \<subseteq> dom d" using assms money_keys_sub by simp
  from only_writes_dom [OF ow_before_clean this] assms
  have d1: "dom ?d1 = set all_keys" by simp
  then have d2: "dom (clean_all ?d1) = set all_keys" by (simp add: dom_clean_all)
  then have "insert k_seller (set money_keys) \<subseteq> dom (clean_all ?d1)"
    using money_keys_sub other_keys_mem by simp
  from only_writes_dom [OF ow_after_clean this] d2
  show ?thesis by (simp add: finish_def)
qed

lemma finish_file:
  "dget (finish eng t d) k_file = clean_string_value (dget d k_file)"
proof -
  have "k_file \<notin> insert k_seller (set money_keys)" using file_not_money by simp
  from finish_frame [OF this]
  show ?thesis by (simp add: dget_def clean_string_value_empty split: option.split)
qed

text \<open>The reconciliation.\<close>

lemma fst_services_block:
  "fst (services_block eng s d) =
     (if s \<noteq> [] then sanity_check_tax (aggregate_item_tax eng (map (clean_item eng) s) d) else d)"
  by (simp add: services_block_def Let_def)

lemma ow_services_block:
  "only_writes (set money_keys) (\<lambda>d. fst (services_block eng s d))"
proof (cases "s = []")
  case True
  then show ?thesis by (simp add: fst_services_block only_writes_def)
next
  case False
  have a: "only_writes (set money_keys) (aggregate_item_tax eng (map (clean_item eng) s))"
    by (rule only_writes_mono [OF ow_aggregate_item_tax]) (simp add: money_keys_def)
  have b: "only_writes (set money_keys) sanity_check_tax"
    by (rule only_writes_mono [OF ow_sanity_check_tax]) (simp add: money_keys_def)
  from only_writes_comp [OF a b] False show ?thesis by (simp add: fst_services_block)
qed

lemma ow_reconcile:
  "only_writes (insert k_lookup (set money_keys)) (\<lambda>d. fst (reconcile eng t s d))"
proof -
  let ?S = "insert k_lookup (set money_keys)"
  have m: "only_writes ?S f" if "only_writes (set money_keys) f" for f
    using that by (rule only_writes_mono) auto
  have s1: "only_writes ?S validate_money"
    by (rule only_writes_mono [OF ow_validate_money]) (simp add: money_keys_def)
  have s2: "only_writes ?S calc_total"
    by (rule only_writes_mono [OF ow_calc_total]) (simp add: money_keys_def)
  have s3: "only_writes ?S reverse_case"
    by (rule only_writes_mono [OF ow_reverse_case]) (simp add: money_keys_def)
  have s4: "only_writes ?S (garbage_total_fix t)"
    by (rule only_writes_mono [OF ow_garbage_total_fix]) (simp add: money_keys_def)
  have s5: "only_writes ?S (items_fallback [])"
    by (rule only_writes_mono [OF ow_items_fallback]) (simp add: money_keys_def)
  have s6: "only_writes ?S rerun_total"
    by (rule only_writes_mono [OF ow_rerun_total]) (simp add: money_keys_def)
  have s7: "only_writes ?S (summary_tables eng t)"
    by (rule only_writes_mono [OF ow_summary_tables]) (simp add: money_keys_def)
  have s8: "only_writes ?S (grand_total_line eng t)"
    by (rule only_writes_mono [OF ow_grand_total_line]) (simp add: money_keys_def)
  have s9: "only_writes ?S (lookup_code_fix eng t)"
    by (rule only_writes_mono [OF ow_lookup_code_fix]) simp
  have s10: "only_writes ?S (fill_other_rate eng)"
    by (rule only_writes_mono [OF ow_fill_other_rate]) (simp add: money_keys_def)
  have s11: "only_writes ?S (\<lambda>d. fst (services_block eng s d))"
    by (rule m [OF ow_services_block])
  note c = only_writes_comp
  from c [OF c [OF c [OF c [OF c [OF c [OF c [OF c [OF c [OF c [OF s1 s2] s3] s4] s5] s6] s7] s8] s9] s10] s11]
  show ?thesis by (simp add: reconcile_def)
qed

lemma field_key_mem: "field_key f \<in> set all_keys"
  by (cases f) (simp_all add: all_keys_def)

lemma field_key_not_file: "field_key f \<noteq> k_file"
  by (cases f) (simp_all add: key_defs)

lemma apply_ocr_fields_dom: "dom (apply_ocr_fields kvs d) = dom d"
proof (induction kvs arbitrary: d)
  case Nil
  show ?case by (simp add: apply_ocr_fields_def)
next
  case (Cons kv kvs)
  let ?d = "if d (field_key (fst kv)) \<noteq> None \<and> snd kv \<noteq> []
            then d(field_key (fst kv) \<mapsto> snd kv) else d"
  have step: "dom ?d = dom d"
    by (auto simp: dom_def)
  have "apply_ocr_fields (kv # kvs) d = apply_ocr_fields kvs ?d"
    by (simp add: apply_ocr_fields_def)
  with Cons.IH [of ?d] step show ?case by simp
qed

lemma apply_ocr_fields_file: "apply_ocr_fields kvs d k_file = d k_file"
proof (induction kvs arbitrary: d)
  case Nil
  show ?case by (simp add: apply_ocr_fields_def)
next
  case (Cons kv kvs)
  let ?d = "if d (field_key (fst kv)) \<noteq> None \<and> snd kv \<noteq> []
            then d(field_key (fst kv) \<mapsto> snd kv) else d"
  have step: "?d k_file = d k_file"
    using field_key_not_file [of "fst kv"] by auto
  have "apply_ocr_fields (kv # kvs) d = apply_ocr_fields kvs ?d"
    by (simp add: apply_ocr_fields_def)
  with Cons.IH [of ?d] step show ?case by simp
qed

lemma ow_hd_ocr_fix: "only_writes {k_number, k_taxcode} (hd_ocr_fix src)"
  unfolding hd_ocr_fix_def
  by (rule only_writesI) (auto simp: Let_def split: option.splits)

lemma ocr_path_keys:
  assumes d: "dom d = set all_keys"
  shows "dom (ocr_path eng src kvs d) = set all_keys"
    and "ocr_path eng src kvs d k_file = d k_file"
proof -
  let ?d1 = "apply_ocr_fields kvs d"
  have d1: "dom ?d1 = set all_keys" using d by (simp add: apply_ocr_fields_dom)
  have f1: "?d1 k_file = d k_file" by (rule apply_ocr_fields_file)
  have "{k_number, k_taxcode} \<subseteq> dom ?d1" using d1 other_keys_mem by simp
  from only_writes_dom [OF ow_hd_ocr_fix this] d1
  have d2: "dom (hd_ocr_fix src ?d1) = set all_keys" by simp
  have "k_file \<notin> {k_number, k_taxcode}" using file_not_money by simp
  from only_writes_frame [OF ow_hd_ocr_fix this] f1
  have f2: "hd_ocr_fix src ?d1 k_file = d k_file" by simp
  show "dom (ocr_path eng src kvs d) = set all_keys"
    using d2 other_keys_mem by (simp add: ocr_path_def Let_def insert_absorb)
  show "ocr_path eng src kvs d k_file = d k_file"
    using f2 file_not_money by (simp add: ocr_path_def Let_def)
qed

text \<open>The extraction of the fields.\<close>

lemma assign_keys:
  assumes "dom d = set all_keys"
  shows "dom (assign ws d) = set all_keys" and "assign ws d k_file = d k_file"
proof -
  have "dom (assign ws d) = set all_keys \<and> assign ws d k_file = d k_file"
    using assms
  proof (induction ws arbitrary: d)
    case Nil
    then show ?case by (simp add: assign_def)
  next
    case (Cons w ws)
    let ?d = "d(field_key (fst w) \<mapsto> snd w)"
    have a: "dom ?d = set all_keys"
      using Cons.prems field_key_mem [of "fst w"] by (simp add: insert_absorb)
    have b: "?d k_file = d k_file"
      using field_key_not_file [of "fst w"] by auto
    have step: "assign (w # ws) d = assign ws ?d" by (simp add: assign_def)
    have "dom (assign ws ?d) = set all_keys \<and> assign ws ?d k_file = ?d k_file"
      by (rule Cons.IH [OF a])
    then have "dom (assign ws ?d) = set all_keys \<and> assign ws ?d k_file = d k_file"
      unfolding b .
    then show ?case unfolding step .
  qed
  then show "dom (assign ws d) = set all_keys" and "assign ws d k_file = d k_file"
    by simp_all
qed

lemma ow_early_rate_pass: "only_writes (insert k_other rate_keys) (early_rate_pass eng)"
proof (rule only_writesI)
  fix d :: pydict and k assume k: "k \<notin> insert k_other rate_keys"
  show "early_rate_pass eng d k = d k"
    using k rate_int_key [of "round_pct eng (inner_parse_money (dget d k_tax))
        (inner_parse_money (dget d k_pretax))"]
    by (auto simp: early_rate_pass_def Let_def)
next
  fix d :: pydict assume sub: "insert k_other rate_keys \<subseteq> dom d"
  show "dom (early_rate_pass eng d) = dom d"
    using sub rate_int_key [of "round_pct eng (inner_parse_money (dget d k_tax))
        (inner_parse_money (dget d k_pretax))"]
    by (auto simp: early_rate_pass_def Let_def)
qed

lemma early_rate_pass_keys:
  assumes "dom d = set all_keys"
  shows "dom (early_rate_pass eng d) = set all_keys" and "early_rate_pass eng d k_file = d k_file"
proof -
  have "insert k_other rate_keys \<subseteq> dom d"
    using assms by (simp add: all_keys_def)
  from only_writes_dom [OF ow_early_rate_pass this] assms
  show "dom (early_rate_pass eng d) = set all_keys" by simp
  have "k_file \<notin> insert k_other rate_keys" by (simp add: key_defs)
  from only_writes_frame [OF ow_early_rate_pass this]
  show "early_rate_pass eng d k_file = d k_file" .
qed

lemma field_stage_keys:
  assumes "dom d = set all_keys"
  shows "dom (fst (field_stage eng t f d)) = set all_keys"
    and "fst (field_stage eng t f d) k_file = d k_file"
proof -
  let ?d1 = "assign (fst (fields_before_rate eng t f d)) d"
  have a: "dom ?d1 = set all_keys" "?d1 k_file = d k_file"
    using assign_keys [OF assms] by simp_all
  let ?d2 = "early_rate_pass eng ?d1"
  have b: "dom ?d2 = set all_keys" "?d2 k_file = d k_file"
    using early_rate_pass_keys [OF a(1)] a(2) by simp_all
  let ?d3 = "assign (fst (fields_after_rate eng t f ?d2)) ?d2"
  have c: "dom ?d3 = set all_keys" "?d3 k_file = d k_file"
    using assign_keys [OF b(1)] b(2) by simp_all
  show "dom (fst (field_stage eng t f d)) = set all_keys"
    using a c by (simp add: field_stage_def Let_def)
  show "fst (field_stage eng t f d) k_file = d k_file"
    using a c by (simp add: field_stage_def Let_def)
qed

lemma ow_clean_line: "only_writes {k_total} (\<lambda>d. snd (clean_line l d))"
  by (rule only_writesI) (auto simp: clean_line_def Let_def split: option.splits)

lemma ow_cleanup_lines: "only_writes {k_total} (\<lambda>d. snd (cleanup_lines ls d))"
proof (induction ls)
  case Nil
  show ?case by (simp add: only_writes_def)
next
  case (Cons l ls)
  have "snd (cleanup_lines (l # ls) d) = snd (cleanup_lines ls (snd (clean_line l d)))" for d
    by (simp split: prod.splits)
  with only_writes_comp [OF ow_clean_line Cons.IH] show ?case by simp
qed

lemma sentinel_all_keys:
  "dom (sentinel_all d) = dom d" "sentinel_all d k_file = d k_file"
  by (auto simp: sentinel_all_def dom_def)

text \<open>
  However the extraction of the fields ends, the record has the 19 keys and the file
  name it was given at line 1126.
\<close>

lemma field_extraction_keys:
  "case field_extraction eng src fname of
     Returns d \<Rightarrow> dom d = set all_keys \<and> d k_file = Some (resolve_filename src fname)
   | Raised t d \<Rightarrow> dom d = set all_keys \<and> d k_file = Some (resolve_filename src fname)
   | Extracted t sv d \<Rightarrow> dom d = set all_keys \<and> d k_file = Some (resolve_filename src fname)"
proof -
  let ?f = "resolve_filename src fname"
  let ?data = "init_data ?f"
  let ?rd = "read_pages (pages src) []"
  have inv0: "dom ?data = set all_keys" "?data k_file = Some ?f"
    by (simp_all add: dom_init_data init_data_file)
  let ?cl = "cleanup_lines (py_lines (normalize_newlines (fst ?rd))) ?data"
  have "{k_total} \<subseteq> dom ?data" using inv0 other_keys_mem by simp
  from only_writes_dom [OF ow_cleanup_lines this] inv0
  have c1: "dom (snd ?cl) = set all_keys" by simp
  have "k_file \<notin> {k_total}" using file_not_money by simp
  from only_writes_frame [OF ow_cleanup_lines this] inv0
  have c2: "snd ?cl k_file = Some ?f" by simp
  have ocr: "dom (ocr_path eng src kvs ?data) = set all_keys"
      "ocr_path eng src kvs ?data k_file = Some ?f" for kvs
    using ocr_path_keys [OF inv0(1)] inv0(2) by simp_all
  have sen: "dom (sentinel_all (snd ?cl)) = set all_keys"
      "sentinel_all (snd ?cl) k_file = Some ?f"
    using c1 c2 by (simp_all add: sentinel_all_keys)
  have stage: "dom (fst (field_stage eng t ?f (snd ?cl))) = set all_keys"
      "fst (field_stage eng t ?f (snd ?cl)) k_file = Some ?f" for t
    using field_stage_keys [OF c1] c2 by simp_all
  show ?thesis
    unfolding field_extraction_def Let_def
    using inv0 c1 c2 ocr sen stage
    by (simp split: option.split)
qed

lemma try_block_keys:
  "case try_block eng src fname of
     Early_return d \<Rightarrow> dom d = set all_keys \<and> d k_file = Some (resolve_filename src fname)
   | Final_passes t d items \<Rightarrow>
       dom d = set all_keys \<and> d k_file = Some (resolve_filename src fname)"
proof (cases "field_extraction eng src fname")
  case (Returns d)
  with field_extraction_keys [where eng = eng and src = src and fname = fname] show ?thesis
    by (simp add: try_block_def)
next
  case (Raised t d)
  with field_extraction_keys [where eng = eng and src = src and fname = fname] show ?thesis
    by (simp add: try_block_def)
next
  case (Extracted t sv d)
  with field_extraction_keys [where eng = eng and src = src and fname = fname]
  have d: "dom d = set all_keys" "d k_file = Some (resolve_filename src fname)" by simp_all
  have "insert k_lookup (set money_keys) \<subseteq> dom d"
    using d(1) money_keys_sub other_keys_mem by simp
  from only_writes_dom [OF ow_reconcile this] d(1)
  have a: "dom (fst (reconcile eng t sv d)) = set all_keys" by simp
  have "k_file \<notin> insert k_lookup (set money_keys)" using file_not_money by simp
  from only_writes_frame [OF ow_reconcile this] d(2)
  have b: "fst (reconcile eng t sv d) k_file = Some (resolve_filename src fname)" by simp
  from Extracted a b show ?thesis by (simp add: try_block_def Let_def)
qed

section \<open>Values through the reconciliation and the final passes\<close>

lemma money_keys_distinct:
  "k_pretax \<noteq> k_tax" "k_pretax \<noteq> k_total" "k_tax \<noteq> k_total"
  "k_tax \<notin> rate_keys" "k_pretax \<notin> rate_keys" "k_total \<notin> rate_keys" "k_other \<notin> rate_keys"
  "k_other \<noteq> k_tax" "k_other \<noteq> k_total" "k_other \<noteq> k_pretax"
  "k_seller \<notin> set money_keys" "k_lookup \<notin> set money_keys"
  by (simp_all add: key_defs money_keys_def)

lemma dget_upd: "dget (d(k \<mapsto> v)) k' = (if k' = k then v else dget d k')"
  by (simp add: dget_def)

lemma dget_nonempty_dom: "dget d k \<noteq> [] \<Longrightarrow> d k \<noteq> None"
  by (cases "d k") (simp_all add: dget_def)

text \<open>The validation of the three amounts.\<close>

lemma validate_money_unfold:
  "validate_money d =
     (let f = (\<lambda>d col. if inner_parse_money (dget d col) < 1000 then d(col \<mapsto> []) else d)
      in f (f (f d k_pretax) k_tax) k_total)"
  by (simp add: validate_money_def)

lemma validate_money_value:
  "k \<in> {k_pretax, k_tax, k_total} \<Longrightarrow>
   dget (validate_money d) k = (if inner_parse_money (dget d k) < 1000 then [] else dget d k)"
  using money_keys_distinct(1-3)
  by (auto simp: validate_money_unfold Let_def dget_upd)

lemma validate_money_floor_aux:
  "k \<in> {k_pretax, k_tax, k_total} \<Longrightarrow>
   dget (validate_money d) k = [] \<or> 1000 \<le> inner_parse_money (dget (validate_money d) k)"
  by (simp add: validate_money_value)


lemma set_py_strip: "set (py_strip s) \<subseteq> set s"
proof -
  have "set (dropWhile is_space (rev (dropWhile is_space s))) \<subseteq> set (rev (dropWhile is_space s))"
    by (rule set_dropWhileD [THEN subsetI]) 
  also have "\<dots> \<subseteq> set s" using set_dropWhileD [of _ is_space s] by auto
  finally show ?thesis by (simp add: py_strip_def)
qed












lemma record_ten_percent_values:
  "dget record_ten_percent k_tax = lit ''100.000''"
  "dget record_ten_percent k_pretax = lit ''1.000.000''"
  "dget record_ten_percent k_tax0 = []" "dget record_ten_percent k_tax5 = []"
  "dget record_ten_percent k_tax8 = []" "dget record_ten_percent k_tax10 = []"
  "dget record_ten_percent k_other = []"
  by (simp_all add: record_ten_percent_def init_data_def all_keys_def key_defs dget_def)

lemma parse_examples:
  "inner_parse_money (lit ''100.000'') = 100000"
  "inner_parse_money (lit ''1.000.000'') = 1000000"
  by (simp_all add: inner_parse_money_def parse_eval_defs)

section \<open>The cleaning of a text without garbage\<close>

lemma starts_with_set: "starts_with p s \<Longrightarrow> set p \<subseteq> set s"
  unfolding starts_with_def by (metis set_take_subset)

lemma py_replace_absent:
  assumes "c \<in> set old" and "c \<notin> set s"
  shows "py_replace old new s = s"
  using assms(2)
proof (induction s)
  case Nil
  show ?case by (subst py_replace.simps) simp
next
  case (Cons x xs)
  have ne: "old \<noteq> []" using assms(1) by auto
  have ns: "\<not> starts_with old (x # xs)"
    using starts_with_set [of old "x # xs"] assms(1) Cons.prems by auto
  have "py_replace old new (x # xs) = x # py_replace old new xs"
    using ne ns by (subst py_replace.simps) simp
  with Cons show ?case by simp
qed

lemma garbage_search_absent: "39 \<notin> set s \<Longrightarrow> garbage_search s = None"
proof (induction s)
  case Nil
  show ?case by simp
next
  case (Cons x xs)
  have "\<not> starts_with [48, 39, 125] (x # xs)"
    using starts_with_set [of "[48, 39, 125]" "x # xs"] Cons.prems by auto
  then have "garbage_at (x # xs) = None" by (simp add: garbage_at_def)
  with Cons show ?case by simp
qed

lemma remove_char_absent: "c \<notin> set s \<Longrightarrow> remove_char c s = s"
  by (induction s) (auto simp: remove_char_def)

lemma clean_line_plain:
  assumes "39 \<notin> set l" "123 \<notin> set l" "0 \<notin> set l" "173 \<notin> set l"
  shows "clean_line l d = (Some l, d)"
proof -
  have g: "garbage_search l = None" using assms(1) by (rule garbage_search_absent)
  have r: "py_replace old new l = l" if "39 \<in> set old" for old new
    using that assms(1) by (rule py_replace_absent)
  have s: "strip_garbage_tokens l = l"
    by (simp add: strip_garbage_tokens_def r)
  have a: "\<not> starts_with [123] (py_strip l)"
    using starts_with_set [of "[123]" "py_strip l"] set_py_strip [of l] assms(2) by auto
  have b: "\<not> starts_with [39] (py_strip l)"
    using starts_with_set [of "[39]" "py_strip l"] set_py_strip [of l] assms(1) by auto
  have c: "remove_char 0 (remove_char 173 l) = l"
    by (simp only: remove_char_absent [OF assms(4)] remove_char_absent [OF assms(3)])
  show ?thesis
    using a b by (simp add: clean_line_def Let_def g s c)
qed

lemma cleanup_lines_plain:
  assumes "\<forall>l\<in>set ls. 39 \<notin> set l \<and> 123 \<notin> set l \<and> 0 \<notin> set l \<and> 173 \<notin> set l"
  shows "cleanup_lines ls d = (ls, d)"
  using assms by (induction ls) (simp_all add: clean_line_plain)

lemma normalize_newlines_plain: "13 \<notin> set t \<Longrightarrow> normalize_newlines t = t"
  by (simp add: normalize_newlines_def py_replace_absent [of 13])

text \<open>A document of one page with one line of text that has no sequence number.\<close>

lemma split_on_line: "d \<notin> set l \<Longrightarrow> split_on d cur (l @ [d]) = [rev cur @ l, []]"
  by (induction l arbitrary: cur) simp_all

lemma one_line_items:
  assumes "10 \<notin> set l" and "\<not> py_isdigit (first_token (py_strip l))"
  shows "extract_services_from_text item_of (l @ [10]) = []"
proof -
  have e: "py_strip [] = []" by (simp add: py_strip_def)
  have "py_lines (l @ [10]) = [l, []]"
    using assms(1) by (simp add: py_lines_def split_on_line)
  then show ?thesis
    using assms(2) by (simp add: extract_services_from_text_def Let_def e)
qed

lemma one_line_extraction:
  assumes chars: "\<forall>c\<in>set l. c \<notin> {0, 10, 13, 39, 123, 173}"
    and ne: "py_strip (l @ [10]) \<noteq> []"
    and tok: "\<not> py_isdigit (first_token (py_strip l))"
    and nr: "\<And>t. \<not> items_raise eng t"
    and ns: "\<And>t f d. \<not> snd (field_stage eng t f d)"
  shows "field_extraction eng (one_page_pdf l) (Some f) =
           Extracted (l @ [10]) [] (fst (field_stage eng (l @ [10]) f (init_data f)))"
proof -
  have "py_strip [10] = []" by (simp add: py_strip_def is_space_def)
  with ne have l_ne: "l \<noteq> []" by auto
  have rd: "read_pages (pages (one_page_pdf l)) [] = (l @ [10], False)"
    using l_ne by (simp add: one_page_pdf_def)
  have nl: "10 \<notin> set l" using chars by auto
  have cr: "13 \<notin> set (l @ [10])" using chars by auto
  have lines: "py_lines (l @ [10]) = [l, []]"
    using nl by (simp add: py_lines_def split_on_line)
  have plain: "\<forall>x\<in>set [l, []]. 39 \<notin> set x \<and> 123 \<notin> set x \<and> 0 \<notin> set x \<and> 173 \<notin> set x"
    using chars by auto
  have cl: "cleanup_lines (py_lines (normalize_newlines (l @ [10]))) d = ([l, []], d)" for d
    by (simp only: normalize_newlines_plain [OF cr] lines cleanup_lines_plain [OF plain])
  have np: "\<not> is_path (one_page_pdf l)" by (simp add: one_page_pdf_def)
  show ?thesis
    unfolding field_extraction_def Let_def rd
    using ne by (simp add: cl nr ns np one_line_items [OF nl tok] resolve_filename_def)
qed

lemma extract_after_extraction:
  "field_extraction eng src fname = Extracted t sv d \<Longrightarrow>
   fst (extract_invoice_data eng src fname) = finish eng t (fst (reconcile eng t sv d))"
  by (simp add: extract_invoice_data_def try_block_def Let_def)

section \<open>Claims about the money parser and formatter\<close>

text \<open>
  C4. The module-level \<open>parse_money\<close> resolves the separators as specified:
  \<open>"1.234.567"\<close> is 1234567, \<open>"1.234,56"\<close> and \<open>"1,234.56"\<close> are both 1234 (the later
  separator is the decimal one and the fraction is cut), and \<open>"79,600"\<close> is 79600, since
  three digits after the single separator make it a thousands separator.
\<close>

theorem parse_money_separators:
  "parse_money (lit ''1.234.567'') = Some 1234567 \<and>
   parse_money (lit ''1.234,56'') = Some 1234 \<and>
   parse_money (lit ''1,234.56'') = Some 1234 \<and>
   parse_money (lit ''79,600'') = Some 79600"
  by (simp add: parse_money_def parse_eval_defs)

text \<open>
  C5. Parsing undoes formatting: for every integer \<open>n\<close> of at least 1000,
  \<open>parse_money (format_money n)\<close> is \<open>n\<close>.
\<close>

theorem parse_money_format_money:
  "1000 \<le> n \<Longrightarrow> parse_money (format_money n) = Some n"
  by (rule parse_money_format_money_nonneg) simp

theorem parse_money_format_money_witness:
  "(1000::int) \<le> 1234567 \<and> parse_money (format_money 1234567) = Some 1234567"
  using parse_money_format_money [of 1234567] by simp

text \<open>
  C6. The claim asks every amount parser to report a parse failure by a value apart from
  every amount. The module-level \<open>parse_money\<close> does (\<open>None\<close>), but the \<open>parse_money\<close>
  nested in \<open>extract_invoice_data\<close> and \<open>_parse_money\<close> of \<open>validate_invoice_data\<close>
  return \<open>0\<close> for the unparseable \<open>"abc"\<close>, which is also what they return for \<open>"0"\<close>.
\<close>

theorem nested_parse_money_failure_is_zero:
  "parse_money (lit ''abc'') = None \<and> parse_money (lit ''0'') = Some 0 \<and>
   inner_parse_money (lit ''abc'') = 0 \<and> inner_parse_money (lit ''0'') = 0 \<and>
   validate_parse_money (lit ''abc'') = 0 \<and> validate_parse_money (lit ''0'') = 0"
  by (simp add: parse_money_def inner_parse_money_def validate_parse_money_def parse_eval_defs)


section \<open>Claims about validation\<close>

lemmas validate_eval_defs =
  issue_classes_def validate_invoice_data_def init_data_def all_keys_def dget_def
  issue_class_def validate_parse_money_def match_date_def date_core_def parse_eval_defs key_defs Let_def

text \<open>
  C9, as stated, fails: a date that is present but not of the form \<open>d/m/yyyy\<close> is
  reported with severity \<open>warning\<close>, and no error is reported for the date field.
\<close>

theorem malformed_date_is_warning:
  "issue_classes record_malformed_date =
     [(k_date, Warning), (k_taxcode, Warning), (k_link, Warning), (k_lookup, Warning),
      (k_serial, Warning)]"
  by (simp add: record_malformed_date_def validate_eval_defs)

text \<open>
  C9, amended. For every record: a seller name that is missing or shorter than five
  characters, a missing invoice number, a missing date, a pre-tax amount of zero and a
  total of zero are each reported with severity \<open>error\<close>; a date that is present but
  malformed is reported as a \<open>warning\<close> and not as an error; no warning is ever issued
  for the seller name, the invoice number or the pre-tax amount; and the record after
  the call is the record before it.
\<close>

theorem validate_classification:
  "(py_strip (dget data k_seller) = [] \<or> length (py_strip (dget data k_seller)) < 5
      \<longrightarrow> (k_seller, Error) \<in> set (issue_classes data)) \<and>
   (py_strip (dget data k_number) = [] \<longrightarrow> (k_number, Error) \<in> set (issue_classes data)) \<and>
   (py_strip (dget data k_date) = [] \<longrightarrow> (k_date, Error) \<in> set (issue_classes data)) \<and>
   (py_strip (dget data k_date) \<noteq> [] \<and> \<not> match_date (py_strip (dget data k_date))
      \<longrightarrow> (k_date, Warning) \<in> set (issue_classes data) \<and>
          (k_date, Error) \<notin> set (issue_classes data)) \<and>
   (validate_parse_money (dget data k_pretax) = 0
      \<longrightarrow> (k_pretax, Error) \<in> set (issue_classes data)) \<and>
   (validate_parse_money (dget data k_total) = 0
      \<longrightarrow> (k_total, Error) \<in> set (issue_classes data)) \<and>
   (k_seller, Warning) \<notin> set (issue_classes data) \<and>
   (k_number, Warning) \<notin> set (issue_classes data) \<and>
   (k_pretax, Warning) \<notin> set (issue_classes data) \<and>
   snd (validate_invoice_data data) = data"
  by (auto simp: issue_classes_def validate_invoice_data_def issue_class_def Let_def key_defs)

theorem validate_classification_witness:
  "(k_seller, Error) \<in> set (issue_classes (init_data [])) \<and>
   (k_number, Error) \<in> set (issue_classes (init_data [])) \<and>
   (k_date, Error) \<in> set (issue_classes (init_data [])) \<and>
   (k_pretax, Error) \<in> set (issue_classes (init_data [])) \<and>
   (k_total, Error) \<in> set (issue_classes (init_data [])) \<and>
   (k_date, Warning) \<in> set (issue_classes record_malformed_date) \<and>
   (k_date, Error) \<notin> set (issue_classes record_malformed_date)"
proof -
  have blank: "dget (init_data []) k = []" for k
    by (simp add: init_data_def all_keys_def dget_def key_defs)
  have z: "validate_parse_money [] = 0" by (simp add: validate_parse_money_def)
  have s: "py_strip [] = []" by (simp add: py_strip_def)
  have d: "py_strip (dget record_malformed_date k_date) = lit ''2025-01-05''"
    by (simp add: record_malformed_date_def init_data_def all_keys_def dget_def key_defs
        py_strip_def is_space_def lit_def)
  have m: "\<not> match_date (lit ''2025-01-05'')"
    by (simp add: match_date_def date_core_def lit_def is_digit_def)
  have ne: "lit ''2025-01-05'' \<noteq> []" by (simp add: lit_def)
  show ?thesis
    using validate_classification [of "init_data []"]
      validate_classification [of record_malformed_date]
    by (simp add: blank z s d m ne)
qed


section \<open>Claims about line items\<close>

text \<open>
  C3. The claim expects a line item from the line \<open>1. Com ga nuong PHAN 2 45.000 90.000\<close>.
  The first token of that line is \<open>1.\<close>, which is not made of digits only, so the loop
  skips the line at line 663 and no item is produced, whatever the rest of the loop
  body does.
\<close>

theorem com_ga_line_yields_no_item:
  "first_token com_ga_line = lit ''1.'' \<and> \<not> py_isdigit (first_token com_ga_line) \<and>
   extract_services_from_text item_of com_ga_line = []"
  by (simp add: extract_services_from_text_def py_lines_def com_ga_line_def first_token_def
      py_split_def py_isdigit_def py_strip_def is_space_def is_digit_def lit_def)


section \<open>Claims about the record returned by extract_invoice_data\<close>

lemma blank_text_and_blank_ocr:
  assumes "read_pages (pages src) [] = (t, False)" "py_strip t = []" "py_strip (ocr_text src) = []"
  shows "extract_invoice_data eng src fname = (init_data (resolve_filename src fname), [])"
  using assms
  by (simp add: extract_invoice_data_def try_block_def field_extraction_def Let_def)

lemma dget_init_data:
  "map (dget (init_data f)) all_keys =
     [f, [], [], [], [], [], [], [], [], [], [], [], [], [], [], [], [], [], []]"
  by (simp add: init_data_def all_keys_def key_defs dget_def)

text \<open>
  C1. For a document whose text layer is empty and whose OCR returns nothing, the claim
  expects the sentinel in every field but the file name. The function returns at line
  1247 with the record of line 1126: the file name, and the empty string in each of the
  18 other fields; the sentinel is written only at lines 1322 to 1324, which this path
  does not reach.
\<close>

theorem scanned_pdf_fields_left_blank:
  "map (dget (fst (extract_invoice_data eng scanned_pdf (Some (lit ''scan.pdf''))))) all_keys =
     [lit ''scan.pdf'', [], [], [], [], [], [], [], [], [], [], [], [], [], [], [], [], [], []] \<and>
   snd (extract_invoice_data eng scanned_pdf (Some (lit ''scan.pdf''))) = [] \<and>
   sentinel \<noteq> []"
proof -
  have "extract_invoice_data eng scanned_pdf (Some (lit ''scan.pdf'')) =
        (init_data (lit ''scan.pdf''), [])"
    using blank_text_and_blank_ocr [of scanned_pdf "[]" eng "Some (lit ''scan.pdf'')"]
    by (simp add: scanned_pdf_def py_strip_def resolve_filename_def)
  then show ?thesis by (simp add: dget_init_data sentinel_def)
qed

text \<open>
  C10, as stated, fails in its last part: the final cleanup (lines 2462 to 2464) passes
  every string field through \<open>clean_string_value\<close>, the file name included. For a
  document that cannot be opened and the file name \<open>a  b.pdf\<close> (two spaces), the record
  holds \<open>a b.pdf\<close>.
\<close>

theorem file_name_is_cleaned:
  "dget (fst (extract_invoice_data plain_engine unreadable_pdf (Some (lit ''a  b.pdf'')))) k_file
     = lit ''a b.pdf'' \<and>
   lit ''a b.pdf'' \<noteq> lit ''a  b.pdf''"
proof -
  let ?f = "lit ''a  b.pdf''"
  have run: "fst (extract_invoice_data plain_engine unreadable_pdf (Some ?f)) =
        finish plain_engine [] (init_data ?f)"
    by (simp add: extract_invoice_data_def try_block_def field_extraction_def
          unreadable_pdf_def resolve_filename_def Let_def)
  have "dget (finish plain_engine [] (init_data ?f)) k_file =
        clean_string_value (dget (init_data ?f) k_file)"
    by (rule finish_file)
  also have "dget (init_data ?f) k_file = ?f"
    by (simp add: dget_def init_data_file)
  also have "clean_string_value ?f = lit ''a b.pdf''"
    by (simp add: clean_string_value_def remove_char_def py_split_def is_space_def lit_def)
  finally have "dget (finish plain_engine [] (init_data ?f)) k_file = lit ''a b.pdf''" .
  with run show ?thesis by (simp add: lit_def)
qed

text \<open>
  C10, amended. For every input, the record returned has exactly the 19 keys of the
  initialisation at line 1126. Its file name field is the input file name when the
  function returns inside the \<open>try\<close> statement (the two returns of the OCR branch and
  the return with the sentinel), and the input file name passed through
  \<open>clean_string_value\<close> when the function reaches the final passes (every other path,
  the exceptions included).
\<close>

theorem record_keys_and_file_name:
  "dom (fst (extract_invoice_data eng src fname)) = set all_keys \<and>
   dget (fst (extract_invoice_data eng src fname)) k_file =
     (case try_block eng src fname of
        Early_return d \<Rightarrow> resolve_filename src fname
      | Final_passes t d line_items \<Rightarrow> clean_string_value (resolve_filename src fname))"
proof (cases "try_block eng src fname")
  case (Early_return d)
  with try_block_keys [where eng = eng and src = src and fname = fname] show ?thesis
    by (simp add: extract_invoice_data_def dget_def)
next
  case (Final_passes t d line_items)
  with try_block_keys [where eng = eng and src = src and fname = fname]
  have d: "dom d = set all_keys" "d k_file = Some (resolve_filename src fname)" by simp_all
  have "dget (finish eng t d) k_file = clean_string_value (dget d k_file)"
    by (rule finish_file)
  with d(2) have "dget (finish eng t d) k_file = clean_string_value (resolve_filename src fname)"
    by (simp add: dget_def)
  with finish_dom [OF d(1)] Final_passes show ?thesis
    by (simp add: extract_invoice_data_def)
qed

section \<open>Claims about the reconciliation\<close>

lemmas step_defs =
  reconcile_and_finish_def reconcile_def finish_def validate_money_def calc_total_def
  reverse_case_def garbage_total_fix_def items_fallback_def rerun_total_def
  summary_tables_def grand_total_line_def lookup_code_fix_def fill_other_rate_def
  services_block_def recalc_total_tax_def final_rate_pass_def clean_all_def
  other_cleanup_def money_cleanup_def money_keys_def seller_cleanup_def
  seller_blacklisted_def plain_engine_def

lemmas record_eval_defs = init_data_def all_keys_def key_defs dget_def Let_def

lemmas inner_eval_defs =
  inner_parse_money_def inner_format_money_def inner_parse_money_int_def to_float_def
  py_str_int_def format_grouped_def group_thousands_def nat_digits.simps parse_eval_defs
  clean_string_value_def py_split_def

text \<open>
  C7, as stated, fails. For an invoice of 6.250 with a tax of 500 in the 8% bucket, the
  validation of lines 2155 to 2158 clears the total tax, the bucket is never checked,
  and line 2437 then restores the total tax from the bucket: the record returned holds
  500 in both fields.
\<close>

theorem small_tax_is_returned:
  "dget (reconcile_and_finish plain_engine [] [] record_small_tax) k_tax = lit ''500'' \<and>
   dget (reconcile_and_finish plain_engine [] [] record_small_tax) k_tax8 = lit ''500'' \<and>
   inner_parse_money (lit ''500'') = 500"
  by (simp add: record_small_tax_def step_defs record_eval_defs inner_eval_defs)

text \<open>
  C7, amended. The validation step of lines 2155 to 2158 treats a pre-tax amount, a
  total tax or a total that parses below 1000 as absent: right after it, each of the
  three fields is empty or parses to at least 1000.
\<close>

theorem validate_money_floor:
  "(dget (validate_money d) k_pretax = [] \<or>
      1000 \<le> inner_parse_money (dget (validate_money d) k_pretax)) \<and>
   (dget (validate_money d) k_tax = [] \<or>
      1000 \<le> inner_parse_money (dget (validate_money d) k_tax)) \<and>
   (dget (validate_money d) k_total = [] \<or>
      1000 \<le> inner_parse_money (dget (validate_money d) k_total))"
  by (simp add: validate_money_floor_aux)

subsection \<open>The inference of the rate\<close>

text \<open>The rate pass of lines 1997 to 2010, at the point where it stands.\<close>

lemma early_rate_pass_fills_one_bucket:
  assumes "dget d k_tax \<noteq> []"
    and "dget d k_tax0 = []" and "dget d k_tax5 = []" and "dget d k_tax8 = []"
    and "dget d k_tax10 = []"
    and "inner_parse_money (dget d k_tax) \<noteq> 0"
    and "0 < inner_parse_money (dget d k_pretax)"
    and "round_pct eng (inner_parse_money (dget d k_tax)) (inner_parse_money (dget d k_pretax)) = r"
    and "r \<in> {0, 5, 8, 10}"
  shows "early_rate_pass eng d = d(thue_prefix @ py_str_int r @ [37] \<mapsto> dget d k_tax)"
  using assms by (simp add: early_rate_pass_def Let_def)






lemma init_data_tax_blank: "dget (init_data f) k_tax = []"
  by (simp add: init_data_def all_keys_def key_defs dget_def)







subsection \<open>The derivation of the third amount\<close>

text \<open>The steps of the reconciliation after line 2194 keep the total and the pre-tax amount.\<close>

lemma summary_tables_tax_filled:
  assumes "dget d k_tax \<noteq> []"
  shows "dget (summary_tables eng txt d) k_tax \<noteq> []"
proof -
  let ?d1 = "fst (foldl summary_line (d, 0) (summary_lines eng txt))"
  have "dget ?d1 k_tax = dget d k_tax"
    using only_writes_dget [OF fst_foldl_summary money_keys_distinct(4)] .
  with assms show ?thesis
    by (simp add: summary_tables_def Let_def dget_upd inner_format_money_nonempty)
qed

lemma fill_other_rate_total:
  assumes "dget d k_tax \<noteq> []"
  shows "dget (fill_other_rate eng d) k_total = dget d k_total"
proof (cases "dget d k_other \<in> set [lit ''10'', lit ''8'', lit ''5'', lit ''0'']")
  case True
  from rate_literal_key [OF True] money_keys_distinct(6)
  have "k_total \<noteq> thue_prefix @ dget d k_other @ [37]" by auto
  with assms True money_keys_distinct show ?thesis
    by (auto simp: fill_other_rate_def Let_def dget_upd)
next
  case False
  then show ?thesis by (simp add: fill_other_rate_def Let_def)
qed

lemma ow_services_block_fine:
  "only_writes (rate_keys \<union> {k_other, k_tax}) (\<lambda>d. fst (services_block eng s d))"
proof (cases "s = []")
  case True
  then show ?thesis by (simp add: fst_services_block only_writes_def)
next
  case False
  have a: "only_writes (rate_keys \<union> {k_other, k_tax})
             (aggregate_item_tax eng (map (clean_item eng) s))"
    by (rule only_writes_mono [OF ow_aggregate_item_tax]) auto
  from only_writes_comp [OF a ow_sanity_check_tax] False
  show ?thesis by (simp add: fst_services_block)
qed

lemma rest_of_reconcile_total:
  assumes gt: "grand_total eng txt = None"
    and tot: "dget d k_total \<noteq> []" and tax: "dget d k_tax \<noteq> []"
  shows "dget (fst (services_block eng s (fill_other_rate eng (lookup_code_fix eng txt
           (grand_total_line eng txt (summary_tables eng txt (rerun_total
             (items_fallback [] (garbage_total_fix txt d)))))))))  k_total = dget d k_total"
proof -
  have g1: "garbage_total_fix txt d = d" using tot by (simp add: garbage_total_fix_def)
  have g2: "items_fallback [] d = d" by (simp add: items_fallback_def)
  have g3: "rerun_total d = d" using tot by (simp add: rerun_total_def)
  let ?d7 = "summary_tables eng txt d"
  have t7: "dget ?d7 k_total = dget d k_total"
    using money_keys_distinct by (intro only_writes_dget [OF ow_summary_tables]) auto
  have x7: "dget ?d7 k_tax \<noteq> []" using tax by (rule summary_tables_tax_filled)
  have g8: "grand_total_line eng txt ?d7 = ?d7" using gt by (simp add: grand_total_line_def)
  let ?d9 = "lookup_code_fix eng txt ?d7"
  have ne: "k_total \<notin> {k_lookup}" "k_tax \<notin> {k_lookup}" by (simp_all add: key_defs)
  have t9: "dget ?d9 k_total = dget d k_total"
    using only_writes_dget [OF ow_lookup_code_fix ne(1)] t7 by simp
  have x9: "dget ?d9 k_tax \<noteq> []"
    using only_writes_dget [OF ow_lookup_code_fix ne(2)] x7 by simp
  let ?d10 = "fill_other_rate eng ?d9"
  have t10: "dget ?d10 k_total = dget d k_total"
    using fill_other_rate_total [OF x9] t9 by simp
  have "k_total \<notin> rate_keys \<union> {k_other, k_tax}" using money_keys_distinct by auto
  from only_writes_dget [OF ow_services_block_fine this] t10
  show ?thesis by (simp add: g1 g2 g3 g8)
qed

lemma rest_of_reconcile_pretax:
  assumes gt: "grand_total eng txt = None" and tot: "dget d k_total \<noteq> []"
  shows "dget (fst (services_block eng s (fill_other_rate eng (lookup_code_fix eng txt
           (grand_total_line eng txt (summary_tables eng txt (rerun_total
             (items_fallback [] (garbage_total_fix txt d)))))))))  k_pretax = dget d k_pretax"
proof -
  have g1: "garbage_total_fix txt d = d" using tot by (simp add: garbage_total_fix_def)
  have g2: "items_fallback [] d = d" by (simp add: items_fallback_def)
  have g3: "rerun_total d = d" using tot by (simp add: rerun_total_def)
  let ?d7 = "summary_tables eng txt d"
  have t7: "dget ?d7 k_pretax = dget d k_pretax"
    using money_keys_distinct by (intro only_writes_dget [OF ow_summary_tables]) auto
  have g8: "grand_total_line eng txt ?d7 = ?d7" using gt by (simp add: grand_total_line_def)
  let ?d9 = "lookup_code_fix eng txt ?d7"
  have ne: "k_pretax \<notin> {k_lookup}" by (simp add: key_defs)
  have t9: "dget ?d9 k_pretax = dget d k_pretax"
    using only_writes_dget [OF ow_lookup_code_fix ne] t7 by simp
  let ?d10 = "fill_other_rate eng ?d9"
  have "k_pretax \<notin> rate_keys \<union> {k_other, k_tax, k_total}" using money_keys_distinct by auto
  from only_writes_dget [OF ow_fill_other_rate this] t9
  have t10: "dget ?d10 k_pretax = dget d k_pretax" by simp
  have "k_pretax \<notin> rate_keys \<union> {k_other, k_tax}" using money_keys_distinct by auto
  from only_writes_dget [OF ow_services_block_fine this] t10
  show ?thesis by (simp add: g1 g2 g3 g8)
qed

text \<open>The final passes keep an amount that is already in the format of \<open>format_money\<close>.\<close>

lemma money_cleanup_value:
  assumes "k \<in> set money_keys"
  shows "dget (money_cleanup d) k =
           (if dget d k \<noteq> [] \<and> inner_parse_money (dget d k) \<noteq> 0
            then inner_format_money (inner_parse_money (dget d k)) else dget d k)"
proof -
  let ?g = "\<lambda>d k. if d k \<noteq> None \<and> dget d k \<noteq> [] then
                     (let val = inner_parse_money (dget d k) in
                      if val \<noteq> 0 then d(k \<mapsto> inner_format_money val) else d)
                   else d"
  let ?G = "\<lambda>v. if v \<noteq> [] \<and> inner_parse_money v \<noteq> 0
                then inner_format_money (inner_parse_money v) else v"
  have step: "dget (?g d x) k = (if x = k then ?G (dget d k) else dget d k)"
    for d :: pydict and x
    using dget_nonempty_dom [of d k] by (auto simp: Let_def dget_upd)
  have "distinct ks \<Longrightarrow>
        dget (foldl ?g d ks) k = (if k \<in> set ks then ?G (dget d k) else dget d k)" for ks
  proof (induction ks arbitrary: d)
    case Nil
    show ?case by simp
  next
    case (Cons x xs)
    from Cons.prems have dx: "distinct xs" and nx: "x \<notin> set xs" by simp_all
    have "dget (foldl ?g (?g d x) xs) k =
          (if k \<in> set xs then ?G (dget (?g d x) k) else dget (?g d x) k)"
      by (rule Cons.IH [OF dx])
    also have "\<dots> = (if k \<in> set (x # xs) then ?G (dget d k) else dget d k)"
      using nx by (simp only: step) auto
    finally show ?case by simp
  qed
  moreover have "distinct money_keys" by (simp add: money_keys_def key_defs)
  ultimately show ?thesis using assms by (simp add: money_cleanup_def)
qed

lemma finish_amount:
  assumes k: "k \<in> {k_pretax, k_total}"
    and v: "dget d k = inner_format_money n" and n: "0 \<le> n" "n < 2 ^ 53"
  shows "dget (finish eng t d) k = inner_format_money n"
proof -
  have k1: "k \<notin> {k_tax}" "k \<notin> rate_keys" "k \<notin> {k_other}" "k \<notin> {k_seller}"
    "k \<in> set money_keys"
    using k money_keys_distinct by (auto simp: money_keys_def)
  let ?d1 = "recalc_total_tax d"
  let ?d2 = "final_rate_pass eng ?d1"
  let ?d3 = "clean_all ?d2"
  let ?d4 = "other_cleanup ?d3"
  let ?d5 = "money_cleanup ?d4"
  have "dget ?d1 k = inner_format_money n"
    using only_writes_dget [OF ow_recalc_total_tax k1(1)] v by simp
  then have "dget ?d2 k = inner_format_money n"
    using only_writes_dget [OF ow_final_rate_pass k1(2)] by simp
  then have "dget ?d3 k = inner_format_money n"
    by (simp add: dget_clean_all clean_inner_format_money [OF n])
  then have v4: "dget ?d4 k = inner_format_money n"
    using only_writes_dget [OF ow_other_cleanup k1(3)] by simp
  have "dget ?d5 k = inner_format_money n"
    by (simp add: money_cleanup_value [OF k1(5)] v4 inner_parse_format [OF n])
  then show ?thesis
    using only_writes_dget [OF ow_seller_cleanup k1(4)] by (simp add: finish_def)
qed

lemma parsed_nonempty: "1000 \<le> inner_parse_money v \<Longrightarrow> v \<noteq> []"
  by (auto simp: inner_parse_money_empty)

lemma reconcile_total:
  assumes gt: "grand_total eng txt = None"
    and t: "1000 \<le> inner_parse_money (dget d k_tax)"
    and b: "1000 \<le> inner_parse_money (dget d k_pretax)"
    and a: "inner_parse_money (dget d k_total) < 1000"
  shows "dget (fst (reconcile eng txt sv d)) k_total =
           inner_format_money (inner_parse_money (dget d k_pretax) + inner_parse_money (dget d k_tax))"
proof -
  let ?d0 = "validate_money d"
  have v0: "dget ?d0 k_pretax = dget d k_pretax" "dget ?d0 k_tax = dget d k_tax"
    "dget ?d0 k_total = []"
    using t b a by (simp_all add: validate_money_value)
  let ?d1 = "calc_total ?d0"
  let ?n = "inner_parse_money (dget d k_pretax) + inner_parse_money (dget d k_tax)"
  have d1: "?d1 = ?d0(k_total \<mapsto> inner_format_money ?n)"
    using v0 by (simp add: calc_total_def)
  have v1: "dget ?d1 k_total = inner_format_money ?n" "dget ?d1 k_pretax = dget d k_pretax"
    "dget ?d1 k_tax = dget d k_tax"
    using v0 money_keys_distinct by (simp_all add: d1 dget_upd)
  have d2: "reverse_case ?d1 = ?d1"
    using v1 parsed_nonempty [OF b] by (simp add: reverse_case_def)
  have tot: "dget ?d1 k_total \<noteq> []" by (simp add: v1 inner_format_money_nonempty)
  have tax: "dget ?d1 k_tax \<noteq> []" using v1 parsed_nonempty [OF t] by simp
  from rest_of_reconcile_total [OF gt tot tax, of sv] v1(1)
  show ?thesis by (simp add: reconcile_def d2)
qed

lemma reconcile_pretax:
  assumes gt: "grand_total eng txt = None"
    and t: "1000 \<le> inner_parse_money (dget d k_tax)"
    and a: "1000 \<le> inner_parse_money (dget d k_total)"
    and b: "inner_parse_money (dget d k_pretax) < 1000"
  shows "dget (fst (reconcile eng txt sv d)) k_pretax =
           inner_format_money (inner_parse_money (dget d k_total) - inner_parse_money (dget d k_tax))"
proof -
  let ?d0 = "validate_money d"
  have v0: "dget ?d0 k_pretax = []" "dget ?d0 k_tax = dget d k_tax"
    "dget ?d0 k_total = dget d k_total"
    using t b a by (simp_all add: validate_money_value)
  have d1: "calc_total ?d0 = ?d0"
    using v0 parsed_nonempty [OF a] by (simp add: calc_total_def)
  let ?n = "inner_parse_money (dget d k_total) - inner_parse_money (dget d k_tax)"
  let ?d2 = "reverse_case ?d0"
  have d2: "?d2 = ?d0(k_pretax \<mapsto> inner_format_money ?n)"
    using v0 parsed_nonempty [OF a] t by (simp add: reverse_case_def Let_def)
  have v2: "dget ?d2 k_pretax = inner_format_money ?n" "dget ?d2 k_total = dget d k_total"
    using v0 money_keys_distinct by (simp_all add: d2 dget_upd)
  have tot: "dget ?d2 k_total \<noteq> []" using v2 parsed_nonempty [OF a] by simp
  from rest_of_reconcile_pretax [OF gt tot, of sv] v2(1)
  show ?thesis by (simp add: reconcile_def d1)
qed

text \<open>The two scanned and the two text documents.\<close>

lemma parse_more_examples:
  "inner_parse_money (lit ''80.000'') = 80000"
  "inner_parse_money (lit ''1.080.000'') = 1080000"
  by (simp_all add: inner_parse_money_def parse_eval_defs)

lemma ocr_tax_total_not_blank: "py_strip ocr_tax_total_text \<noteq> []"
  by (simp add: py_strip_def ocr_tax_total_text_def is_space_def)

lemma ocr_tax_total_run:
  "fst (extract_invoice_data ocr_tax_total_engine ocr_tax_total_scan (Some (lit ''scan.pdf''))) =
     ocr_path ocr_tax_total_engine ocr_tax_total_scan
       [(F_tax, lit ''80.000''), (F_total, lit ''1.080.000'')] (init_data (lit ''scan.pdf''))"
  using ocr_tax_total_not_blank
  by (simp add: extract_invoice_data_def try_block_def field_extraction_def Let_def
        ocr_tax_total_scan_def ocr_tax_total_engine_def plain_engine_def resolve_filename_def
        py_strip_def)

lemma ocr_tax_total_record:
  "map (dget (ocr_path ocr_tax_total_engine ocr_tax_total_scan
       [(F_tax, lit ''80.000''), (F_total, lit ''1.080.000'')] (init_data (lit ''scan.pdf''))))
     [k_pretax, k_tax, k_total] = [[], lit ''80.000'', lit ''1.080.000'']"
  by (simp add: ocr_path_def apply_ocr_fields_def hd_ocr_fix_def ocr_tax_total_scan_def
        init_data_def all_keys_def key_defs dget_def Let_def lit_def)

lemma record_missing_tax_values:
  "map (dget record_missing_tax) [k_pretax, k_tax, k_total] =
     [lit ''1.000.000'', [], lit ''1.080.000'']"
  by (simp add: record_missing_tax_def init_data_def all_keys_def key_defs dget_def)

lemma record_missing_tax_result:
  "dget (reconcile_and_finish plain_engine [] [] record_missing_tax) k_tax = []"
  by (simp add: record_missing_tax_def step_defs record_eval_defs inner_eval_defs)

lemma pretax_tax_facts:
  "\<forall>c\<in>set pretax_tax_text. c \<notin> {0, 10, 13, 39, 123, 173}"
  "py_strip (pretax_tax_text @ [10]) \<noteq> []"
  "\<not> py_isdigit (first_token (py_strip pretax_tax_text))"
  by (simp_all add: pretax_tax_text_def py_strip_def is_space_def first_token_def py_split_def
        py_isdigit_def is_digit_def)

lemma pretax_tax_stage:
  "map (dget (fst (field_stage pretax_tax_engine t f (init_data (lit ''a.pdf'')))))
     [k_pretax, k_tax, k_total] = [lit ''1.000.000'', lit ''80.000'', []]"
  "\<not> snd (field_stage pretax_tax_engine t f d)"
  "\<not> items_raise pretax_tax_engine t"
  "grand_total pretax_tax_engine t = None"
proof -
  have e: "early_rate_pass eng (init_data (lit ''a.pdf'')) = init_data (lit ''a.pdf'')" for eng
    using init_data_tax_blank by (simp add: early_rate_pass_def)
  show "map (dget (fst (field_stage pretax_tax_engine t f (init_data (lit ''a.pdf'')))))
     [k_pretax, k_tax, k_total] = [lit ''1.000.000'', lit ''80.000'', []]"
    by (simp add: field_stage_def Let_def pretax_tax_engine_def plain_engine_def assign_def e)
       (simp add: init_data_def all_keys_def key_defs dget_def)
  show "\<not> snd (field_stage pretax_tax_engine t f d)"
    by (simp add: field_stage_def Let_def pretax_tax_engine_def plain_engine_def)
  show "\<not> items_raise pretax_tax_engine t" "grand_total pretax_tax_engine t = None"
    by (simp_all add: pretax_tax_engine_def plain_engine_def)
qed

lemma tax_total_facts:
  "\<forall>c\<in>set tax_total_text. c \<notin> {0, 10, 13, 39, 123, 173}"
  "py_strip (tax_total_text @ [10]) \<noteq> []"
  "\<not> py_isdigit (first_token (py_strip tax_total_text))"
  by (simp_all add: tax_total_text_def py_strip_def is_space_def first_token_def py_split_def
        py_isdigit_def is_digit_def)

lemma tax_total_stage:
  "map (dget (fst (field_stage tax_total_engine t f (init_data (lit ''a.pdf'')))))
     [k_pretax, k_tax, k_total] = [[], lit ''80.000'', lit ''1.080.000'']"
  "\<not> snd (field_stage tax_total_engine t f d)"
  "\<not> items_raise tax_total_engine t"
  "grand_total tax_total_engine t = None"
proof -
  let ?d = "(init_data (lit ''a.pdf''))(k_tax \<mapsto> lit ''80.000'')"
  have "dget ?d k_pretax = []"
    by (simp add: init_data_def all_keys_def key_defs dget_def)
  then have e: "early_rate_pass eng ?d = ?d" for eng
    by (simp add: early_rate_pass_def Let_def inner_parse_money_empty)
  show "map (dget (fst (field_stage tax_total_engine t f (init_data (lit ''a.pdf'')))))
     [k_pretax, k_tax, k_total] = [[], lit ''80.000'', lit ''1.080.000'']"
    by (simp add: field_stage_def Let_def tax_total_engine_def plain_engine_def assign_def e)
       (simp add: init_data_def all_keys_def key_defs dget_def)
  show "\<not> snd (field_stage tax_total_engine t f d)"
    by (simp add: field_stage_def Let_def tax_total_engine_def plain_engine_def)
  show "\<not> items_raise tax_total_engine t" "grand_total tax_total_engine t = None"
    by (simp_all add: tax_total_engine_def plain_engine_def)
qed

text \<open>
  C2, as stated, fails in two of its three directions. A missing tax is never computed
  from the other two amounts on the text path: the record with pre-tax amount 1.000.000
  and total 1.080.000 at line 2153 is returned with an empty tax (line 2437 fills the
  tax from the buckets only). And the OCR branch computes no missing pre-tax amount: the
  scanned invoice with tax 80.000 and total 1.080.000 is returned at line 1244 with an
  empty pre-tax amount.
\<close>

theorem third_amount_not_derived:
  "inner_parse_money (dget record_missing_tax k_pretax) = 1000000 \<and>
   inner_parse_money (dget record_missing_tax k_total) = 1080000 \<and>
   dget record_missing_tax k_tax = [] \<and>
   dget (reconcile_and_finish plain_engine [] [] record_missing_tax) k_tax = [] \<and>
   inner_parse_money
     (dget (fst (extract_invoice_data ocr_tax_total_engine ocr_tax_total_scan
                   (Some (lit ''scan.pdf'')))) k_tax) = 80000 \<and>
   inner_parse_money
     (dget (fst (extract_invoice_data ocr_tax_total_engine ocr_tax_total_scan
                   (Some (lit ''scan.pdf'')))) k_total) = 1080000 \<and>
   dget (fst (extract_invoice_data ocr_tax_total_engine ocr_tax_total_scan
                (Some (lit ''scan.pdf'')))) k_pretax = []"
  using record_missing_tax_values record_missing_tax_result ocr_tax_total_record
    parse_examples parse_more_examples
  unfolding ocr_tax_total_run by simp

text \<open>
  C2, amended. Let \<open>extract_invoice_data\<close> reach line 2153 with a record whose tax parses
  to at least 1000, on a text without a grand-total line (the pattern of line 2289).
  If the pre-tax amount parses to at least 1000 and the total is missing (empty, or
  parsing below 1000), the total of the record returned is the pre-tax amount plus the
  tax. If the total parses to at least 1000, the pre-tax amount is missing and the tax
  does not exceed the total, the pre-tax amount of the record returned is the total
  less the tax. Amounts are below \<open>2^53\<close>, where the formatting through a float is exact.
\<close>

theorem reconciliation_derives_total_and_pretax:
  assumes "field_extraction eng src fname = Extracted txt sv d"
    and "grand_total eng txt = None"
    and "1000 \<le> inner_parse_money (dget d k_tax)"
  shows "(1000 \<le> inner_parse_money (dget d k_pretax) \<and>
          inner_parse_money (dget d k_total) < 1000 \<and>
          inner_parse_money (dget d k_pretax) + inner_parse_money (dget d k_tax) < 2 ^ 53 \<longrightarrow>
          inner_parse_money (dget (fst (extract_invoice_data eng src fname)) k_total) =
            inner_parse_money (dget d k_pretax) + inner_parse_money (dget d k_tax)) \<and>
         (1000 \<le> inner_parse_money (dget d k_total) \<and>
          inner_parse_money (dget d k_pretax) < 1000 \<and>
          inner_parse_money (dget d k_tax) \<le> inner_parse_money (dget d k_total) \<and>
          inner_parse_money (dget d k_total) < 2 ^ 53 \<longrightarrow>
          inner_parse_money (dget (fst (extract_invoice_data eng src fname)) k_pretax) =
            inner_parse_money (dget d k_total) - inner_parse_money (dget d k_tax))"
proof (intro conjI impI)
  let ?R = "fst (extract_invoice_data eng src fname)"
  let ?b = "inner_parse_money (dget d k_pretax)"
  let ?t = "inner_parse_money (dget d k_tax)"
  let ?a = "inner_parse_money (dget d k_total)"
  note run = extract_after_extraction [OF assms(1)]
  {
    assume h: "1000 \<le> ?b \<and> ?a < 1000 \<and> ?b + ?t < 2 ^ 53"
    then have n: "0 \<le> ?b + ?t" "?b + ?t < 2 ^ 53" using assms(3) by simp_all
    have "dget (fst (reconcile eng txt sv d)) k_total = inner_format_money (?b + ?t)"
      using reconcile_total [OF assms(2,3)] h by simp
    from finish_amount [OF _ this n, of eng "txt"]
    have "dget ?R k_total = inner_format_money (?b + ?t)" by (simp add: run)
    then show "inner_parse_money (dget ?R k_total) = ?b + ?t"
      by (simp add: inner_parse_format [OF n])
  }
  {
    assume h: "1000 \<le> ?a \<and> ?b < 1000 \<and> ?t \<le> ?a \<and> ?a < 2 ^ 53"
    then have n: "0 \<le> ?a - ?t" "?a - ?t < 2 ^ 53" using assms(3) by simp_all
    have "dget (fst (reconcile eng txt sv d)) k_pretax = inner_format_money (?a - ?t)"
      using reconcile_pretax [OF assms(2,3)] h by simp
    from finish_amount [OF _ this n, of eng "txt"]
    have "dget ?R k_pretax = inner_format_money (?a - ?t)" by (simp add: run)
    then show "inner_parse_money (dget ?R k_pretax) = ?a - ?t"
      by (simp add: inner_parse_format [OF n])
  }
qed

theorem reconciliation_derives_total_and_pretax_witness:
  "inner_parse_money
     (dget (fst (extract_invoice_data pretax_tax_engine (one_page_pdf pretax_tax_text)
                   (Some (lit ''a.pdf'')))) k_total) = 1080000 \<and>
   inner_parse_money
     (dget (fst (extract_invoice_data tax_total_engine (one_page_pdf tax_total_text)
                   (Some (lit ''a.pdf'')))) k_pretax) = 1000000"
proof -
  note ea = one_line_extraction [OF pretax_tax_facts pretax_tax_stage(3) pretax_tax_stage(2),
      of "lit ''a.pdf''"]
  note eb = one_line_extraction [OF tax_total_facts tax_total_stage(3) tax_total_stage(2),
      of "lit ''a.pdf''"]
  have va: "dget (fst (field_stage pretax_tax_engine t f (init_data (lit ''a.pdf'')))) k_pretax
              = lit ''1.000.000''"
      "dget (fst (field_stage pretax_tax_engine t f (init_data (lit ''a.pdf'')))) k_tax
              = lit ''80.000''"
      "dget (fst (field_stage pretax_tax_engine t f (init_data (lit ''a.pdf'')))) k_total = []"
    for t f
    using pretax_tax_stage(1) [of t f] by simp_all
  have vb: "dget (fst (field_stage tax_total_engine t f (init_data (lit ''a.pdf'')))) k_pretax = []"
      "dget (fst (field_stage tax_total_engine t f (init_data (lit ''a.pdf'')))) k_tax
              = lit ''80.000''"
      "dget (fst (field_stage tax_total_engine t f (init_data (lit ''a.pdf'')))) k_total
              = lit ''1.080.000''"
    for t f
    using tax_total_stage(1) [of t f] by simp_all
  have ta: "1000 \<le> inner_parse_money
      (dget (fst (field_stage pretax_tax_engine (pretax_tax_text @ [10]) (lit ''a.pdf'')
         (init_data (lit ''a.pdf'')))) k_tax)"
    by (simp add: va parse_more_examples)
  have tb: "1000 \<le> inner_parse_money
      (dget (fst (field_stage tax_total_engine (tax_total_text @ [10]) (lit ''a.pdf'')
         (init_data (lit ''a.pdf'')))) k_tax)"
    by (simp add: vb parse_more_examples)
  show ?thesis
    using reconciliation_derives_total_and_pretax [OF ea pretax_tax_stage(4) ta]
      reconciliation_derives_total_and_pretax [OF eb tax_total_stage(4) tb]
    by (simp add: va vb parse_examples parse_more_examples inner_parse_money_empty)
qed

end
